theory Spec2Isabelle
  imports Main "HOL-Library.Sublist"
begin

section \<open>The pex command line driver (pex/bin/pex.py)\<close>

text \<open>
  A shallow embedding of \<^verbatim>\<open>build_pex\<close>, \<^verbatim>\<open>main\<close> and \<^verbatim>\<open>seed_cache\<close>.
  The functions of other modules that the file calls (interpreter discovery, the resolver,
  the builder, the file system) are fields of the record \<open>world\<close>; what the file does with
  their results is modelled as written. Every call with an effect outside the process is
  appended to a trace of events, so that the order of effects can be stated. The
  diagnostics of \<^verbatim>\<open>TRACER\<close> and \<^verbatim>\<open>log\<close> are left out, but for the line that
  records which interpreter resolved a platform.
  Argument parsing is not modelled: the functions start from the parsed \<^verbatim>\<open>options\<close>
  namespace, and of \<^verbatim>\<open>configure_clp\<close> only the inspection of the current interpreter
  is kept, since it is an effect of every run of \<^verbatim>\<open>main\<close>.
\<close>

subsection \<open>Exit statuses\<close>

definition CANNOT_SETUP_INTERPRETER :: nat where
  "CANNOT_SETUP_INTERPRETER = 102"

definition INVALID_OPTIONS :: nat where
  "INVALID_OPTIONS = 103"

subsection \<open>Data\<close>

text \<open>A platform tag; \<^verbatim>\<open>--platform current\<close> parses to Python's \<^verbatim>\<open>None\<close>.\<close>

type_synonym platform = string

record interpreter =
  binary :: string
  version :: "nat \<times> nat \<times> nat"
  supported_platforms :: "platform list"

datatype Seed = NONE | ARGS | VERBOSE

datatype BinPath = BinPath_FALSE | PREPEND | APPEND

datatype repository =
    PexRepository string
  | PipRepository "string list" "string list" string

record resolve_configuration =
  repository :: repository
  network_configuration :: string
  transitive :: bool
  allow_prereleases :: bool
  allow_builds :: bool
  allow_wheels :: bool
  assume_manylinux :: "string option"
  max_jobs :: nat

record installed_distribution =
  distribution :: string
  direct_requirement :: "string option"

text \<open>The keyword arguments of the two resolver calls, as \<^verbatim>\<open>build_pex\<close> passes them.\<close>

record resolve_from_pex_args =
  rfp_pex :: repository
  rfp_requirements :: "string list"
  rfp_requirement_files :: "string list"
  rfp_constraint_files :: "string list"
  rfp_network_configuration :: string
  rfp_transitive :: bool
  rfp_interpreters :: "interpreter list"
  rfp_platforms :: "platform option list"
  rfp_manylinux :: "string option"
  rfp_ignore_errors :: bool

record resolve_args =
  r_requirements :: "string list"
  r_requirement_files :: "string list"
  r_constraint_files :: "string list"
  r_allow_prereleases :: bool
  r_transitive :: bool
  r_interpreters :: "interpreter list"
  r_platforms :: "platform option list"
  r_repository :: repository
  r_network_configuration :: string
  r_cache :: "string option"
  r_build :: bool
  r_use_wheel :: bool
  r_compile :: bool
  r_manylinux :: "string option"
  r_max_parallel_jobs :: nat
  r_ignore_errors :: bool

text \<open>
  How a run ends other than by returning: \<^verbatim>\<open>die(msg)\<close> is \<open>Die msg None\<close> (no exit
  code is passed, so the default of \<^verbatim>\<open>pex.common.die\<close> applies) and
  \<^verbatim>\<open>die(msg, code)\<close> is \<open>Die msg (Some code)\<close>.
\<close>

datatype failure =
    Die string "nat option"
  | UnsatisfiableInterpreterConstraintsError "string list" "string option"
  | AssertionError string
  | IOError string
  | KeyError
  | SysExit int

fun exit_status :: "nat \<Rightarrow> failure \<Rightarrow> nat option" where
  "exit_status d (Die msg None) = Some d"
| "exit_status d (Die msg (Some c)) = Some c"
| "exit_status d _ = None"

text \<open>
  What \<^verbatim>\<open>seed_cache\<close> returns: a path, or \<^verbatim>\<open>json.dumps\<close> of a dictionary, which
  is represented by the dictionary it serialises (keys in the order they are given).
\<close>

datatype seed_info = Path string | Json "(string \<times> string) list"

datatype event =
    Warn string
  | FromBinary string
  | FromEnv string
  | ValidateConstraints "string list"
  | IterCompatibleInterpreters "string option" "string list"
  | GetInterpreter
  | Resolved interpreter platform
  | SafeMkdtemp string
  | AddFromRequirementsPex string
  | ResolveFromPex resolve_from_pex_args
  | Resolve resolve_args
  | CreateResolveConfiguration
  | Freeze bool
  | Build string
  | Install string string
  | Print seed_info
  | Run "string list"

subsection \<open>Effects: a trace of events and a result\<close>

type_synonym 'a io = "event list \<Rightarrow> event list \<times> (failure + 'a)"

definition ret :: "'a \<Rightarrow> 'a io" where
  "ret x = (\<lambda>t. (t, Inr x))"

definition raise :: "failure \<Rightarrow> 'a io" where
  "raise e = (\<lambda>t. (t, Inl e))"

definition emit :: "event \<Rightarrow> unit io" where
  "emit ev = (\<lambda>t. (t @ [ev], Inr ()))"

definition bnd :: "'a io \<Rightarrow> ('a \<Rightarrow> 'b io) \<Rightarrow> 'b io" where
  "bnd m f = (\<lambda>t. case m t of (t', Inl e) \<Rightarrow> (t', Inl e) | (t', Inr x) \<Rightarrow> f x t')"

definition die :: "string \<Rightarrow> nat option \<Rightarrow> 'a io" where
  "die msg code = raise (Die msg code)"

definition when_do :: "bool \<Rightarrow> unit io \<Rightarrow> unit io" where
  "when_do b m = (if b then m else ret ())"

fun map_io :: "('a \<Rightarrow> 'b io) \<Rightarrow> 'a list \<Rightarrow> 'b list io" where
  "map_io f [] = ret []"
| "map_io f (x # xs) = bnd (f x) (\<lambda>y. bnd (map_io f xs) (\<lambda>ys. ret (y # ys)))"

text \<open>
  \<^verbatim>\<open>try: ... except UnsatisfiableInterpreterConstraintsError as e: ...\<close>; any other
  failure passes through.
\<close>

definition except_unsatisfiable :: "'a io \<Rightarrow> (string list \<Rightarrow> string option \<Rightarrow> 'a io) \<Rightarrow> 'a io" where
  "except_unsatisfiable m h =
     (\<lambda>t. case m t of
        (t', Inl (UnsatisfiableInterpreterConstraintsError cs p)) \<Rightarrow> h cs p t'
      | r \<Rightarrow> r)"

text \<open>Python truthiness of an optional string.\<close>

definition truthy :: "string option \<Rightarrow> bool" where
  "truthy s = (case s of None \<Rightarrow> False | Some x \<Rightarrow> x \<noteq> [])"

text \<open>\<^verbatim>\<open>a or b\<close> for an optional string \<open>a\<close> and a string \<open>b\<close>.\<close>

definition py_or :: "string option \<Rightarrow> string \<Rightarrow> string" where
  "py_or a b = (case a of None \<Rightarrow> b | Some x \<Rightarrow> if x \<noteq> [] then x else b)"

text \<open>\<^verbatim>\<open>OrderedSet\<close>: insertion order, an element already present is not added again.\<close>

definition ordered_set_add :: "'a list \<Rightarrow> 'a \<Rightarrow> 'a list" where
  "ordered_set_add s x = (if x \<in> set s then s else s @ [x])"

definition OrderedSet :: "'a list \<Rightarrow> 'a list" where
  "OrderedSet xs = foldl ordered_set_add [] xs"

text \<open>\<^verbatim>\<open>OrderedSet.remove\<close> raises \<^verbatim>\<open>KeyError\<close> on an element that is absent.\<close>

definition ordered_set_remove :: "'a list \<Rightarrow> 'a \<Rightarrow> failure + 'a list" where
  "ordered_set_remove s x = (if x \<in> set s then Inr (remove1 x s) else Inl KeyError)"

text \<open>\<^verbatim>\<open>posixpath.join\<close> of two components.\<close>

definition path_join :: "string \<Rightarrow> string \<Rightarrow> string" where
  "path_join a b =
     (if b \<noteq> [] \<and> hd b = CHR ''/'' then b
      else if a = [] \<or> last a = CHR ''/'' then a @ b
      else a @ ''/'' @ b)"

subsection \<open>The parsed options\<close>

text \<open>
  The attributes of the \<^verbatim>\<open>argparse\<close> namespace that \<^verbatim>\<open>main\<close>,
  \<^verbatim>\<open>build_pex\<close> and \<^verbatim>\<open>seed_cache\<close> read. \<^verbatim>\<open>options.venv\<close> is
  \<^verbatim>\<open>False\<close> (here \<open>None\<close>) unless \<^verbatim>\<open>--venv\<close> is given, and then a
  \<^verbatim>\<open>BinPath\<close> value, which is truthy.
\<close>

record options =
  python :: "string list"
  python_path :: "string option"
  rc_file :: "string option"
  interpreter_constraint :: "string list"
  platforms :: "platform option list"
  resolve_local_platforms :: bool
  preamble_file :: "string option"
  sources_directory :: "string list"
  resources_directory :: "string list"
  zip_safe :: "bool option"
  unzip :: "bool option"
  always_write_cache :: "bool option"
  venv :: "BinPath option"
  venv_copies :: bool
  include_tools :: bool
  pex_path :: "string option"
  ignore_errors :: bool
  emit_warnings :: bool
  inherit_path :: string
  runtime_pex_root :: "string option"
  strip_pex_env :: bool
  requirements :: "string list"
  requirement_files :: "string list"
  constraint_files :: "string list"
  requirements_pexes :: "string list"
  pex_repository :: "string option"
  entry_point :: "string option"
  script :: "string option"
  python_shebang :: "string option"
  validate_ep :: bool
  compile :: bool
  use_system_time :: bool
  layout :: string
  pex_name :: "string option"
  seed :: Seed
  cache_dir :: "string option"
  pex_root :: "string option"
  disable_cache :: bool
  tmpdir :: string
  verbosity :: nat

text \<open>The defaults that \<^verbatim>\<open>configure_clp\<close> declares (no argument given).\<close>

definition default_options :: options where
  "default_options =
     \<lparr> python = [], python_path = None, rc_file = None, interpreter_constraint = [],
       platforms = [], resolve_local_platforms = False, preamble_file = None,
       sources_directory = [], resources_directory = [], zip_safe = None, unzip = None,
       always_write_cache = None, venv = None, venv_copies = False, include_tools = False,
       pex_path = None, ignore_errors = False, emit_warnings = True, inherit_path = ''false'',
       runtime_pex_root = None, strip_pex_env = True, requirements = [],
       requirement_files = [], constraint_files = [], requirements_pexes = [],
       pex_repository = None, entry_point = None, script = None, python_shebang = None,
       validate_ep = False, compile = False, use_system_time = False, layout = ''zipapp'',
       pex_name = None, seed = NONE, cache_dir = None, pex_root = None,
       disable_cache = False, tmpdir = ''/tmp'', verbosity = 0 \<rparr>"

subsection \<open>The builder and the built PEX\<close>

datatype entry = EntryPoint string | Script string

record pex_info =
  info_venv :: bool
  info_venv_bin_path :: BinPath
  info_venv_copies :: bool
  info_includes_tools :: bool
  info_pex_path :: "string option"
  info_ignore_errors :: bool
  info_emit_warnings :: bool
  info_inherit_path :: string
  info_pex_root :: "string option"
  info_strip_pex_env :: bool

record pex_builder =
  builder_path :: string
  builder_interpreter :: "interpreter option"
  builder_preamble :: "string option"
  builder_sources :: "(string \<times> string) list"
  builder_info :: "pex_info option"
  builder_interpreter_constraints :: "string list"
  builder_distributions :: "string list"
  builder_requirements :: "string list"
  builder_entry :: "entry option"
  builder_shebang :: "string option"

text \<open>
  What \<^verbatim>\<open>seed_cache\<close> reads of a \<^verbatim>\<open>PEX\<close>: \<^verbatim>\<open>pex.interpreter.binary\<close>,
  \<^verbatim>\<open>pex.pex_info().pex_root\<close> and \<^verbatim>\<open>pex.pex_info().pex_hash\<close>.
\<close>

record PEX =
  pex_interpreter_binary :: string
  pex_info_pex_root :: string
  pex_info_pex_hash :: "string option"

subsection \<open>The collaborators\<close>

record world =
  isfile :: "string \<Rightarrow> bool"
  from_binary :: "string \<Rightarrow> interpreter"
  from_env :: "string \<Rightarrow> interpreter option"
  get_interpreter :: interpreter
  reachable :: "string option \<Rightarrow> interpreter list"
  satisfies :: "interpreter \<Rightarrow> string \<Rightarrow> bool"
  malformed :: "string list \<Rightarrow> string option"
  create_message :: "string list \<Rightarrow> string option \<Rightarrow> string \<Rightarrow> string"
  PEX_IGNORE_RCFILES :: bool
  rc_PEX_PYTHON_PATH :: "string option \<Rightarrow> string option"
  read_file :: "string \<Rightarrow> string option"
  mkdtemp :: "nat \<Rightarrow> string"
  normpath :: "string \<Rightarrow> string"
  walk :: "string \<Rightarrow> (string \<times> string list) list"
  relpath :: "string \<Rightarrow> string \<Rightarrow> string"
  resolve :: "resolve_args \<Rightarrow> string + installed_distribution list"
  resolve_from_pex :: "resolve_from_pex_args \<Rightarrow> string + installed_distribution list"
  realpath :: "string \<Rightarrow> string"
  path_exists :: "string \<Rightarrow> bool"
  isdir :: "string \<Rightarrow> bool"
  abspath :: "string \<Rightarrow> string"
  environ_PEX_ROOT :: "string option"
  ENV_PEX_ROOT :: string
  create_resolve_configuration :: "options \<Rightarrow> string + resolve_configuration"
  load_pex :: "pex_builder \<Rightarrow> PEX"
  pex_run :: "pex_builder \<Rightarrow> string list \<Rightarrow> int"
  maybe_install :: "string \<Rightarrow> string \<Rightarrow> string \<Rightarrow> string option io"
  ensure_venv :: "PEX \<Rightarrow> string io"
  PexInfo_PATH :: string

subsection \<open>Collaborators modelled from the spec\<close>

text \<open>
  Modelled from the spec: \<^verbatim>\<open>validate_constraints\<close> (pex.interpreter_constraints) is not
  among the given sources. Spec 4.1: "constraints are first syntactically validated (fail fast, before any
  interpreter probing, on malformed constraint syntax)". \<open>malformed w cs\<close> is the message for
  the first malformed constraint, if there is one; the failure takes the generic fatal path.
\<close>

definition validate_constraints :: "world \<Rightarrow> string list \<Rightarrow> unit io" where
  "validate_constraints w constraints =
     bnd (emit (ValidateConstraints constraints)) (\<lambda>_.
       case malformed w constraints of
         None \<Rightarrow> ret ()
       | Some msg \<Rightarrow> die msg None)"

text \<open>
  Modelled from the spec: \<^verbatim>\<open>iter_compatible_interpreters\<close> (pex.pex_bootstrapper) is not
  among the given sources. Spec 4.1: "every interpreter reachable on the effective search path is probed
  and kept if it satisfies at least one constraint; if none satisfy any constraint, the
  operation fails with a distinguished unsatisfiable constraints condition carrying the
  attempted constraint set and search path". Without constraints every reachable
  interpreter is kept and nothing fails.
\<close>

definition iter_compatible_interpreters ::
    "world \<Rightarrow> string option \<Rightarrow> string list \<Rightarrow> interpreter list io" where
  "iter_compatible_interpreters w path constraints =
     bnd (emit (IterCompatibleInterpreters path constraints)) (\<lambda>_.
       let found = filter (\<lambda>i. constraints = [] \<or> list_ex (satisfies w i) constraints)
                     (reachable w path)
       in if found = [] \<and> constraints \<noteq> []
          then raise (UnsatisfiableInterpreterConstraintsError constraints path)
          else ret found)"

text \<open>
  Modelled from the spec: how \<^verbatim>\<open>PythonInterpreter\<close> (not among the given sources)
  orders versions. Spec 3: an interpreter descriptor has a "version tuple"; the version that
  spec 4.1 minimises is major.minor, and the release within it is the patch number.
\<close>

definition major_minor :: "interpreter \<Rightarrow> nat \<times> nat" where
  "major_minor i = (case version i of (a, b, c) \<Rightarrow> (a, b))"

definition patch :: "interpreter \<Rightarrow> nat" where
  "patch i = (case version i of (a, b, c) \<Rightarrow> c)"

definition version_lt :: "nat \<times> nat \<Rightarrow> nat \<times> nat \<Rightarrow> bool" where
  "version_lt u v = (fst u < fst v \<or> (fst u = fst v \<and> snd u < snd v))"

text \<open>
  Modelled from the spec: the preference of
  \<^verbatim>\<open>PythonInterpreter.latest_release_of_min_compatible_version\<close> (not among the given
  sources) between two candidates: a lower major.minor version first, and within one version
  the later release.
\<close>

definition preferred :: "interpreter \<Rightarrow> interpreter \<Rightarrow> bool" where
  "preferred i best =
     (version_lt (major_minor i) (major_minor best) \<or>
      (major_minor i = major_minor best \<and> patch best < patch i))"

text \<open>
  Modelled from the spec: \<^verbatim>\<open>PythonInterpreter.latest_release_of_min_compatible_version\<close>
  is not among the given sources. Spec 4.1: "compute the minimal version satisfying all
  constraints, then prefer the most recently released interpreter binary at or above that
  version": the lowest major.minor version among the candidates, and of the candidates with
  that version the one with the latest release (patch) number; of equals, the first. The
  sequence must not be empty: it is given as its first element and the rest.
\<close>

definition latest_release_of_min_compatible_version :: "interpreter \<Rightarrow> interpreter list \<Rightarrow> interpreter" where
  "latest_release_of_min_compatible_version i rest =
     foldl (\<lambda>best j. if preferred j best then j else best) i rest"

text \<open>
  Modelled from the spec: \<^verbatim>\<open>maybe_install\<close> (pex.layout) is not among the given sources.
  Spec 4.4:
  "use that hash to install (or reuse an existing installation keyed by that hash) into the
  shared cache root"; spec 3, CacheEntry: "keyed by a content hash of the build; created once
  per distinct build content, reused (never rebuilt) on subsequent identical builds". The
  entry of hash \<open>h\<close> under the root \<open>r\<close> is the directory \<open>path_join r h\<close>; the event
  \<open>Install r h\<close> is the installation work, and the entry exists once it is in the trace.
\<close>

definition maybe_install_spec :: "string \<Rightarrow> string \<Rightarrow> string \<Rightarrow> string option io" where
  "maybe_install_spec pex root h =
     (\<lambda>t. if Install root h \<in> set t
          then (t, Inr (Some (path_join root h)))
          else (t @ [Install root h], Inr (Some (path_join root h))))"

subsection \<open>build_pex\<close>

definition is_mkdtemp :: "event \<Rightarrow> bool" where
  "is_mkdtemp ev = (case ev of SafeMkdtemp d \<Rightarrow> True | _ \<Rightarrow> False)"

text \<open>\<^verbatim>\<open>safe_mkdtemp()\<close>: the next temporary directory of the process.\<close>

definition safe_mkdtemp :: "world \<Rightarrow> string io" where
  "safe_mkdtemp w =
     (\<lambda>t. let d = mkdtemp w (length (filter is_mkdtemp t)) in (t @ [SafeMkdtemp d], Inr d))"

text \<open>Lines 659-663: the search path for interpreters.\<close>

definition pex_python_path_of :: "world \<Rightarrow> options \<Rightarrow> string option" where
  "pex_python_path_of w opts =
     (if python_path opts = None \<and> (truthy (rc_file opts) \<or> \<not> PEX_IGNORE_RCFILES w)
      then rc_PEX_PYTHON_PATH w (rc_file opts)
      else python_path opts)"

definition to_python_interpreter :: "world \<Rightarrow> string \<Rightarrow> interpreter io" where
  "to_python_interpreter w full_path_or_basename =
     (if isfile w full_path_or_basename
      then bnd (emit (FromBinary full_path_or_basename)) (\<lambda>_.
             ret (from_binary w full_path_or_basename))
      else bnd (emit (FromEnv full_path_or_basename)) (\<lambda>_.
             case from_env w full_path_or_basename of
               None \<Rightarrow> die (''Failed to find interpreter: '' @ full_path_or_basename) None
             | Some interp \<Rightarrow> ret interp))"

text \<open>Lines 657 and 665-693; \<open>None\<close> is Python's \<^verbatim>\<open>interpreters = None\<close>.\<close>

definition resolve_interpreters :: "world \<Rightarrow> options \<Rightarrow> string option \<Rightarrow> interpreter list option io" where
  "resolve_interpreters w opts pex_python_path =
     (if python opts \<noteq> []
      then bnd (map_io (to_python_interpreter w) (python opts)) (\<lambda>is. ret (Some is))
      else if interpreter_constraint opts \<noteq> []
      then bnd (validate_constraints w (interpreter_constraint opts)) (\<lambda>_.
             except_unsatisfiable
               (bnd (iter_compatible_interpreters w pex_python_path (interpreter_constraint opts))
                  (\<lambda>is. ret (Some is)))
               (\<lambda>cs p. die (create_message w cs p ''Could not find a compatible interpreter.'')
                          (Some CANNOT_SETUP_INTERPRETER)))
      else ret None)"

text \<open>
  \<^verbatim>\<open>candidate_interpreter.supported_platforms.intersection(platforms)\<close>: the supported
  platforms are a set, so each is met once; the order of a Python set is not fixed, the
  model takes the order of the list.
\<close>

definition intersection :: "platform list \<Rightarrow> platform option list \<Rightarrow> platform list" where
  "intersection supported ps = filter (\<lambda>p. Some p \<in> set ps) (remdups supported)"

text \<open>Lines 708-714: log each resolved platform and remove it from the working set.\<close>

fun claim_platforms :: "interpreter \<Rightarrow> platform list \<Rightarrow> platform option list \<Rightarrow> platform option list io" where
  "claim_platforms c [] ps = ret ps"
| "claim_platforms c (r # rs) ps =
     bnd (emit (Resolved c r)) (\<lambda>_.
       case ordered_set_remove ps (Some r) of
         Inl e \<Rightarrow> raise e
       | Inr ps' \<Rightarrow> claim_platforms c rs ps')"

text \<open>Lines 703-715: the loop over the candidate interpreters.\<close>

fun match_candidates ::
    "interpreter list \<Rightarrow> platform option list \<Rightarrow> interpreter list \<Rightarrow>
     (platform option list \<times> interpreter list) io" where
  "match_candidates [] ps interpreters = ret (ps, interpreters)"
| "match_candidates (c # cs) ps interpreters =
     (let resolved_platforms = intersection (supported_platforms c) ps
      in if resolved_platforms \<noteq> []
         then bnd (claim_platforms c resolved_platforms ps) (\<lambda>ps'.
                match_candidates cs ps' (interpreters @ [c]))
         else match_candidates cs ps interpreters)"

text \<open>Lines 701-702: the candidates in discovery order, the current interpreter added last.\<close>

definition candidate_interpreters :: "world \<Rightarrow> string option \<Rightarrow> interpreter list io" where
  "candidate_interpreters w pex_python_path =
     bnd (iter_compatible_interpreters w pex_python_path []) (\<lambda>found.
     bnd (emit GetInterpreter) (\<lambda>_.
       ret (ordered_set_add (OrderedSet found) (get_interpreter w))))"

text \<open>Lines 695-723: the platforms left for binary-only resolution and the interpreters.\<close>

definition resolve_local_platforms_step ::
    "world \<Rightarrow> options \<Rightarrow> string option \<Rightarrow> interpreter list \<Rightarrow>
     (platform option list \<times> interpreter list) io" where
  "resolve_local_platforms_step w opts pex_python_path interpreters =
     (if platforms opts \<noteq> [] \<and> resolve_local_platforms opts
      then bnd (candidate_interpreters w pex_python_path) (\<lambda>cands.
             match_candidates cands (OrderedSet (platforms opts)) interpreters)
      else ret (OrderedSet (platforms opts), interpreters))"

text \<open>Lines 657-723: the platforms left to resolve and the participating interpreters.\<close>

definition select_interpreters ::
    "world \<Rightarrow> options \<Rightarrow> (platform option list \<times> interpreter list) io" where
  "select_interpreters w opts =
     (let pex_python_path = pex_python_path_of w opts in
      bnd (resolve_interpreters w opts pex_python_path) (\<lambda>found.
        resolve_local_platforms_step w opts pex_python_path
          (case found of None \<Rightarrow> [] | Some is \<Rightarrow> is)))"

text \<open>Lines 725-729: the primary interpreter.\<close>

definition primary_interpreter :: "interpreter list \<Rightarrow> interpreter option" where
  "primary_interpreter interpreters =
     (case interpreters of
        [] \<Rightarrow> None
      | i # rest \<Rightarrow> Some (latest_release_of_min_compatible_version i rest))"

text \<open>Lines 731-734.\<close>

definition read_preamble :: "world \<Rightarrow> options \<Rightarrow> string option io" where
  "read_preamble w opts =
     (case preamble_file opts of
        None \<Rightarrow> ret None
      | Some f \<Rightarrow>
          if f = [] then ret None
          else (case read_file w f of
                  None \<Rightarrow> raise (IOError f)
                | Some text \<Rightarrow> ret (Some text)))"

text \<open>Lines 743-766: the warnings for the deprecated options.\<close>

definition resources_directory_warning :: string where
  "resources_directory_warning =
     ''The `-R/--resources-directory` option is deprecated. Resources should be added via '' @
     ''`-D/--sources-directory` instead.''"

definition zip_safe_warning :: string where
  "zip_safe_warning =
     ''The `--zip-safe/--not-zip-safe` option is deprecated. This option is no longer used '' @
     ''since user code is now always unzipped before execution.''"

definition unzip_warning :: string where
  "unzip_warning =
     ''The `--unzip/--no-unzip` option is deprecated. This option is no longer used since '' @
     ''unzipping PEX zip files before execution is now the default.''"

definition always_write_cache_warning :: string where
  "always_write_cache_warning =
     ''The `--always-write-cache` option is deprecated. This option is no longer used; all '' @
     ''internally cached distributions in a PEX are always installed into the local Pex '' @
     ''dependency cache.''"

definition deprecation_warnings :: "options \<Rightarrow> unit io" where
  "deprecation_warnings opts =
     bnd (when_do (resources_directory opts \<noteq> []) (emit (Warn resources_directory_warning))) (\<lambda>_.
     bnd (when_do (zip_safe opts \<noteq> None) (emit (Warn zip_safe_warning))) (\<lambda>_.
     bnd (when_do (unzip opts \<noteq> None) (emit (Warn unzip_warning))) (\<lambda>_.
     when_do (always_write_cache opts \<noteq> None) (emit (Warn always_write_cache_warning)))))"

text \<open>Lines 768-777: every file under each declared directory, with its destination.\<close>

definition directory_sources :: "world \<Rightarrow> string \<Rightarrow> (string \<times> string) list" where
  "directory_sources w directory =
     (let src_dir = normpath w directory
      in concat (map (\<lambda>(root, files).
                   map (\<lambda>f. (path_join root f, relpath w (path_join root f) src_dir)) files)
                 (walk w src_dir)))"

definition add_sources :: "world \<Rightarrow> options \<Rightarrow> (string \<times> string) list" where
  "add_sources w opts =
     concat (map (directory_sources w)
               (OrderedSet (sources_directory opts @ resources_directory opts)))"

text \<open>Lines 779-789.\<close>

definition set_pex_info :: "options \<Rightarrow> pex_info" where
  "set_pex_info opts =
     \<lparr> info_venv = (venv opts \<noteq> None),
       info_venv_bin_path = (case venv opts of None \<Rightarrow> BinPath_FALSE | Some b \<Rightarrow> b),
       info_venv_copies = venv_copies opts,
       info_includes_tools = (include_tools opts \<or> venv opts \<noteq> None),
       info_pex_path = pex_path opts,
       info_ignore_errors = ignore_errors opts,
       info_emit_warnings = emit_warnings opts,
       info_inherit_path = inherit_path opts,
       info_pex_root = runtime_pex_root opts,
       info_strip_pex_env = strip_pex_env opts \<rparr>"

text \<open>
  Lines 798-844: one resolver call, chosen by the kind of repository;
  \<^verbatim>\<open>Unsatisfiable\<close> becomes \<^verbatim>\<open>die(str(e))\<close>.
\<close>

definition resolve_distributions ::
    "world \<Rightarrow> string list \<Rightarrow> resolve_configuration \<Rightarrow> options \<Rightarrow> string option \<Rightarrow>
     interpreter list \<Rightarrow> platform option list \<Rightarrow> installed_distribution list io" where
  "resolve_distributions w reqs rc opts cache interpreters ps =
     (case repository rc of
        PexRepository f \<Rightarrow>
          (let args = \<lparr> rfp_pex = repository rc, rfp_requirements = reqs,
                        rfp_requirement_files = requirement_files opts,
                        rfp_constraint_files = constraint_files opts,
                        rfp_network_configuration = network_configuration rc,
                        rfp_transitive = transitive rc,
                        rfp_interpreters = interpreters, rfp_platforms = ps,
                        rfp_manylinux = assume_manylinux rc,
                        rfp_ignore_errors = ignore_errors opts \<rparr>
           in bnd (emit (ResolveFromPex args)) (\<lambda>_.
                case resolve_from_pex w args of
                  Inl msg \<Rightarrow> die msg None
                | Inr result \<Rightarrow> ret result))
      | PipRepository indexes find_links resolver_version \<Rightarrow>
          (let args = \<lparr> r_requirements = reqs,
                        r_requirement_files = requirement_files opts,
                        r_constraint_files = constraint_files opts,
                        r_allow_prereleases = allow_prereleases rc,
                        r_transitive = transitive rc,
                        r_interpreters = interpreters, r_platforms = ps,
                        r_repository = repository rc,
                        r_network_configuration = network_configuration rc,
                        r_cache = cache, r_build = allow_builds rc,
                        r_use_wheel = allow_wheels rc, r_compile = compile opts,
                        r_manylinux = assume_manylinux rc,
                        r_max_parallel_jobs = max_jobs rc,
                        r_ignore_errors = ignore_errors opts \<rparr>
           in bnd (emit (Resolve args)) (\<lambda>_.
                case resolve w args of
                  Inl msg \<Rightarrow> die msg None
                | Inr result \<Rightarrow> ret result)))"

text \<open>Lines 846-857: the entry point check and the last settings.\<close>

definition entry_of :: "options \<Rightarrow> entry option" where
  "entry_of opts =
     (if truthy (entry_point opts) then map_option EntryPoint (entry_point opts)
      else if truthy (script opts) then map_option Script (script opts)
      else None)"

definition finish_builder :: "options \<Rightarrow> pex_builder \<Rightarrow> pex_builder io" where
  "finish_builder opts b =
     (if truthy (entry_point opts) \<and> truthy (script opts)
      then die ''Must specify at most one entry point or script.'' (Some INVALID_OPTIONS)
      else ret (b \<lparr> builder_entry := entry_of opts,
                    builder_shebang :=
                      (if truthy (python_shebang opts) then python_shebang opts else None) \<rparr>))"

text \<open>
  Lines 768-844: the sources, the metadata, the requirement pexes and the resolved
  distributions, for the workspace \<open>path\<close> made at lines 736-741.
\<close>

definition add_distributions ::
    "world \<Rightarrow> string list \<Rightarrow> resolve_configuration \<Rightarrow> options \<Rightarrow> string option \<Rightarrow>
     string \<Rightarrow> string option \<Rightarrow> interpreter list \<Rightarrow> platform option list \<Rightarrow> pex_builder io" where
  "add_distributions w reqs resolve_configuration opts cache path preamble interpreters ps =
     bnd (map_io (\<lambda>f. emit (AddFromRequirementsPex f)) (requirements_pexes opts)) (\<lambda>_.
     bnd (resolve_distributions w reqs resolve_configuration opts cache interpreters ps)
       (\<lambda>result.
       ret \<lparr> builder_path = path,
             builder_interpreter = primary_interpreter interpreters,
             builder_preamble = preamble,
             builder_sources = add_sources w opts,
             builder_info = Some (set_pex_info opts),
             builder_interpreter_constraints = interpreter_constraint opts,
             builder_distributions = map distribution result,
             builder_requirements = List.map_filter direct_requirement result,
             builder_entry = None,
             builder_shebang = None \<rparr>))"

text \<open>Lines 657-844: everything up to and including the resolution.\<close>

definition populate_builder ::
    "world \<Rightarrow> string list \<Rightarrow> resolve_configuration \<Rightarrow> options \<Rightarrow> string option \<Rightarrow>
     pex_builder io" where
  "populate_builder w reqs resolve_configuration opts cache =
     bnd (select_interpreters w opts) (\<lambda>(ps, interpreters).
     bnd (read_preamble w opts) (\<lambda>preamble.
     bnd (safe_mkdtemp w) (\<lambda>path.
     bnd (deprecation_warnings opts) (\<lambda>_.
       add_distributions w reqs resolve_configuration opts cache path preamble
         interpreters ps))))"

definition build_pex ::
    "world \<Rightarrow> string list \<Rightarrow> resolve_configuration \<Rightarrow> options \<Rightarrow> string option \<Rightarrow>
     pex_builder io" where
  "build_pex w reqs resolve_configuration opts cache =
     bnd (populate_builder w reqs resolve_configuration opts cache) (finish_builder opts)"

subsection \<open>seed_cache\<close>

text \<open>
  \<^verbatim>\<open>pex_path = cast(str, options.pex_name)\<close>: \<^verbatim>\<open>main\<close> calls \<^verbatim>\<open>seed_cache\<close>
  only under \<^verbatim>\<open>options.pex_name is not None\<close>; the model passes the checked name
  as \<open>path\<close>.
\<close>

definition create_verbose_info :: "PEX \<Rightarrow> string \<Rightarrow> (string \<times> string) list" where
  "create_verbose_info pex final_pex_path =
     [(''pex_root'', pex_info_pex_root pex),
      (''python'', pex_interpreter_binary pex),
      (''pex'', final_pex_path)]"

definition seed_cache :: "world \<Rightarrow> options \<Rightarrow> string \<Rightarrow> PEX \<Rightarrow> bool \<Rightarrow> seed_info io" where
  "seed_cache w opts path pex verbose =
     (if venv opts \<noteq> None
      then bnd (ensure_venv w pex) (\<lambda>venv_pex.
             if verbose then ret (Json (create_verbose_info pex venv_pex))
             else ret (Path venv_pex))
      else (case pex_info_pex_hash pex of
              None \<Rightarrow>
                raise (AssertionError
                  (''There was no pex_hash stored in '' @ PexInfo_PATH w @ '' for '' @
                   path @ ''.''))
            | Some pex_hash \<Rightarrow>
                bnd (maybe_install w path (pex_info_pex_root pex) pex_hash) (\<lambda>installed.
                  let final_pex_path =
                        path_join (py_or installed (abspath w path)) ''__main__.py''
                  in if verbose then ret (Json (create_verbose_info pex final_pex_path))
                     else ret (Path final_pex_path))))"

subsection \<open>main\<close>

definition ignore_pex_root_warning :: "string \<Rightarrow> string" where
  "ignore_pex_root_warning via =
     ''The pex root has been set via '' @ via @
     '' but --disable-cache is also set. Ignoring '' @ via @ '' and disabling caches.''"

definition warn_ignore_pex_root :: "string \<Rightarrow> unit io" where
  "warn_ignore_pex_root set_via = emit (Warn (ignore_pex_root_warning set_via))"

text \<open>Lines 893-898.\<close>

definition tmpdir_message :: "world \<Rightarrow> string \<Rightarrow> string option" where
  "tmpdir_message w dir =
     (if \<not> path_exists w dir then Some (''The specified --tmpdir does not exist: '' @ dir)
      else if \<not> isdir w dir then Some (''The specified --tmpdir is not a directory: '' @ dir)
      else None)"

definition check_tmpdir :: "world \<Rightarrow> options \<Rightarrow> unit io" where
  "check_tmpdir w opts =
     (case tmpdir_message w (realpath w (tmpdir opts)) of
        Some msg \<Rightarrow> die msg None
      | None \<Rightarrow> ret ())"

text \<open>Lines 900-906.\<close>

definition cache_dir_warning :: string where
  "cache_dir_warning = ''The --cache-dir option is deprecated, use --pex-root instead.''"

definition cache_dir_conflict_message :: string where
  "cache_dir_conflict_message =
     ''Both --cache-dir and --pex-root were passed with conflicting values. '' @
     ''Just set --pex-root.''"

definition check_cache_dir :: "options \<Rightarrow> unit io" where
  "check_cache_dir opts =
     when_do (truthy (cache_dir opts))
       (bnd (emit (Warn cache_dir_warning)) (\<lambda>_.
          when_do (truthy (pex_root opts) \<and> cache_dir opts \<noteq> pex_root opts)
            (die cache_dir_conflict_message None)))"

text \<open>Lines 908-925: the pex root of the invocation.\<close>

definition choose_pex_root :: "world \<Rightarrow> options \<Rightarrow> string io" where
  "choose_pex_root w opts =
     (if disable_cache opts
      then bnd (if truthy (cache_dir opts) then warn_ignore_pex_root ''--cache-dir''
                else if truthy (pex_root opts) then warn_ignore_pex_root ''--pex-root''
                else if truthy (environ_PEX_ROOT w) then warn_ignore_pex_root ''PEX_ROOT''
                else ret ()) (\<lambda>_.
             safe_mkdtemp w)
      else ret (py_or (cache_dir opts) (py_or (pex_root opts) (ENV_PEX_ROOT w))))"

text \<open>Lines 927-933.\<close>

definition python_conflict_message :: string where
  \<open>python_conflict_message =
     ''The "--python" and "--interpreter-constraint" options cannot be used together.''\<close>

definition check_python_options :: "options \<Rightarrow> unit io" where
  "check_python_options opts =
     when_do (python opts \<noteq> [] \<and> interpreter_constraint opts \<noteq> [])
       (die python_conflict_message None)"

definition resolve_configuration_of :: "world \<Rightarrow> options \<Rightarrow> resolve_configuration io" where
  "resolve_configuration_of w opts =
     bnd (emit CreateResolveConfiguration) (\<lambda>_.
       case create_resolve_configuration w opts of
         Inl msg \<Rightarrow> die msg None
       | Inr rc \<Rightarrow> ret rc)"

text \<open>
  Lines 935-974. Under \<^verbatim>\<open>ENV.patch(PEX_ROOT=pex_root)\<close> the \<^verbatim>\<open>ENV.PEX_ROOT\<close>
  passed as \<^verbatim>\<open>cache\<close> is the chosen pex root.
\<close>

definition run_build :: "world \<Rightarrow> options \<Rightarrow> string list \<Rightarrow> string \<Rightarrow> resolve_configuration \<Rightarrow> unit io" where
  "run_build w opts cmdline root rc =
     bnd (build_pex w (requirements opts) rc opts (Some root)) (\<lambda>pex_builder.
     bnd (emit (Freeze (compile opts))) (\<lambda>_.
       let pex = load_pex w pex_builder in
       case pex_name opts of
         Some name \<Rightarrow>
           bnd (emit (Build name)) (\<lambda>_.
             if seed opts \<noteq> NONE
             then bnd (seed_cache w opts name pex (seed opts = VERBOSE)) (\<lambda>info.
                    emit (Print info))
             else ret ())
       | None \<Rightarrow>
           bnd (emit (Run cmdline)) (\<lambda>_.
             raise (SysExit (pex_run w pex_builder cmdline)))))"

text \<open>
  Line 881: \<^verbatim>\<open>configure_clp()\<close> builds the parser, and for the help texts
  \<^verbatim>\<open>configure_clp_pex_environment\<close> calls \<^verbatim>\<open>PythonInterpreter.get()\<close> (line 320):
  the current interpreter is inspected before any option is read.
\<close>

definition configure_clp :: "unit io" where
  "configure_clp = emit GetInterpreter"

text \<open>Lines 878-974, with \<open>opts\<close> the result of \<^verbatim>\<open>parse_args\<close> at line 889.\<close>

definition main :: "world \<Rightarrow> options \<Rightarrow> string list \<Rightarrow> unit io" where
  "main w opts cmdline =
     bnd configure_clp (\<lambda>_.
     bnd (check_tmpdir w opts) (\<lambda>_.
     bnd (check_cache_dir opts) (\<lambda>_.
     bnd (choose_pex_root w opts) (\<lambda>root.
     bnd (check_python_options opts) (\<lambda>_.
     bnd (resolve_configuration_of w opts) (\<lambda>rc.
       run_build w opts cmdline root rc))))))"

subsection \<open>Notions of the claims\<close>

text \<open>
  The source of a pex root with the highest precedence among those present:
  \<^verbatim>\<open>--cache-dir\<close>, then \<^verbatim>\<open>--pex-root\<close>, then the environment variable
  \<^verbatim>\<open>PEX_ROOT\<close>.
\<close>

definition pex_root_source :: "world \<Rightarrow> options \<Rightarrow> string option" where
  "pex_root_source w opts =
     (if truthy (cache_dir opts) then Some ''--cache-dir''
      else if truthy (pex_root opts) then Some ''--pex-root''
      else if truthy (environ_PEX_ROOT w) then Some ''PEX_ROOT''
      else None)"

text \<open>\<^verbatim>\<open>--cache-dir\<close> and \<^verbatim>\<open>--pex-root\<close> are both given, with different values.\<close>

definition cache_dir_conflict :: "options \<Rightarrow> bool" where
  "cache_dir_conflict opts =
     (truthy (cache_dir opts) \<and> truthy (pex_root opts) \<and> cache_dir opts \<noteq> pex_root opts)"

text \<open>
  The first candidate interpreter, in discovery order, whose supported platforms contain
  the tag.
\<close>

definition claimed_by :: "interpreter list \<Rightarrow> platform \<Rightarrow> interpreter option" where
  "claimed_by candidates r = find (\<lambda>c. r \<in> set (supported_platforms c)) candidates"

text \<open>The warnings for the deprecated options of \<^verbatim>\<open>build_pex\<close> that are set, in order.\<close>

definition deprecated_option_warnings :: "options \<Rightarrow> string list" where
  "deprecated_option_warnings opts =
     (if resources_directory opts \<noteq> [] then [resources_directory_warning] else []) @
     (if zip_safe opts \<noteq> None then [zip_safe_warning] else []) @
     (if unzip opts \<noteq> None then [unzip_warning] else []) @
     (if always_write_cache opts \<noteq> None then [always_write_cache_warning] else [])"

text \<open>The computation appends events to the trace, and only events of the kind \<open>Q\<close>.\<close>

definition adds :: "(event \<Rightarrow> bool) \<Rightarrow> 'a io \<Rightarrow> bool" where
  "adds Q m = (\<forall>t. \<exists>es. fst (m t) = t @ es \<and> list_all Q es)"

subsection \<open>Kinds of events\<close>

text \<open>The calls that look for or inspect an interpreter.\<close>

fun is_probe :: "event \<Rightarrow> bool" where
  "is_probe (FromBinary p) = True"
| "is_probe (FromEnv n) = True"
| "is_probe (IterCompatibleInterpreters p cs) = True"
| "is_probe GetInterpreter = True"
| "is_probe _ = False"

fun is_resolver_call :: "event \<Rightarrow> bool" where
  "is_resolver_call (Resolve args) = True"
| "is_resolver_call (ResolveFromPex args) = True"
| "is_resolver_call _ = False"

text \<open>The platforms and the interpreters that a resolver call is given.\<close>

fun resolver_platforms :: "event \<Rightarrow> platform option list" where
  "resolver_platforms (Resolve args) = r_platforms args"
| "resolver_platforms (ResolveFromPex args) = rfp_platforms args"
| "resolver_platforms _ = []"

fun resolver_interpreters :: "event \<Rightarrow> interpreter list" where
  "resolver_interpreters (Resolve args) = r_interpreters args"
| "resolver_interpreters (ResolveFromPex args) = rfp_interpreters args"
| "resolver_interpreters _ = []"


fun is_install :: "event \<Rightarrow> bool" where
  "is_install (Install root h) = True"
| "is_install _ = False"

subsection \<open>A concrete world, for the examples\<close>

definition example_interpreter :: interpreter where
  "example_interpreter =
     \<lparr> binary = ''/usr/bin/python3.9'', version = (3, 9, 7),
       supported_platforms = [''linux_x86_64-cp-39-cp39''] \<rparr>"

definition example_configuration :: resolve_configuration where
  "example_configuration =
     \<lparr> repository = PipRepository [''https://pypi.org/simple''] [] ''pip-legacy-resolver'',
       network_configuration = [], transitive = True, allow_prereleases = False,
       allow_builds = True, allow_wheels = True, assume_manylinux = Some ''manylinux2014'',
       max_jobs = 4 \<rparr>"

definition example_pex :: PEX where
  "example_pex =
     \<lparr> pex_interpreter_binary = ''/usr/bin/python3.9'',
       pex_info_pex_root = ''/home/user/.pex'',
       pex_info_pex_hash = Some ''0a1b2c'' \<rparr>"

definition example_world :: world where
  "example_world =
     \<lparr> isfile = (\<lambda>p. p = ''/usr/bin/python3.9''),
       from_binary = (\<lambda>p. example_interpreter),
       from_env = (\<lambda>n. if n = ''python3.9'' then Some example_interpreter else None),
       get_interpreter = example_interpreter,
       reachable = (\<lambda>p. [example_interpreter]),
       satisfies = (\<lambda>i c. c = ''>=3.8''),
       malformed = (\<lambda>cs. None),
       create_message = (\<lambda>cs p msg. msg),
       PEX_IGNORE_RCFILES = True,
       rc_PEX_PYTHON_PATH = (\<lambda>f. None),
       read_file = (\<lambda>f. None),
       mkdtemp = (\<lambda>n. ''/tmp/pex'' @ replicate n (CHR ''x'')),
       normpath = (\<lambda>p. p),
       walk = (\<lambda>d. if d = ''res'' then [(''res'', [''data.txt''])] else []),
       relpath = (\<lambda>p d. drop (Suc (length d)) p),
       resolve = (\<lambda>args. Inr []),
       resolve_from_pex = (\<lambda>args. Inr []),
       realpath = (\<lambda>p. p),
       path_exists = (\<lambda>p. True),
       isdir = (\<lambda>p. True),
       abspath = (\<lambda>p. p),
       environ_PEX_ROOT = None,
       ENV_PEX_ROOT = ''/home/user/.pex'',
       create_resolve_configuration = (\<lambda>opts. Inr example_configuration),
       load_pex = (\<lambda>b. example_pex),
       pex_run = (\<lambda>b args. 0),
       maybe_install = (\<lambda>pex root h. ret None),
       ensure_venv = (\<lambda>pex. ret ''/home/user/.pex/venvs/0a1b2c/pex''),
       PexInfo_PATH = ''PEX-INFO'' \<rparr>"

text \<open>The same world with the cache of the spec.\<close>

definition seeding_world :: world where
  "seeding_world = example_world \<lparr> maybe_install := maybe_install_spec \<rparr>"

text \<open>Command lines of the examples.\<close>

definition python_conflict_options :: options where
  "python_conflict_options =
     default_options \<lparr> python := [''python3.9''], interpreter_constraint := [''>=3.8''] \<rparr>"

definition disable_cache_options :: options where
  "disable_cache_options = default_options \<lparr> disable_cache := True, pex_root := Some ''/b'' \<rparr>"

definition disable_cache_conflict_options :: options where
  "disable_cache_conflict_options =
     default_options \<lparr> disable_cache := True, cache_dir := Some ''/a'', pex_root := Some ''/b'' \<rparr>"

definition entry_conflict_options :: options where
  "entry_conflict_options =
     default_options \<lparr> entry_point := Some ''pkg.mod:main'', script := Some ''somescript'' \<rparr>"

definition constraint_options :: options where
  "constraint_options = default_options \<lparr> interpreter_constraint := [''>=3.8''] \<rparr>"





definition python_options :: options where
  "python_options = default_options \<lparr> python := [''/usr/bin/python3.9''] \<rparr>"

definition seed_options :: options where
  "seed_options = default_options \<lparr> pex_name := Some ''/out/app.pex'', seed := ARGS \<rparr>"

text \<open>
  A world with two interpreters on the search path, which both support the first platform
  of the command line below; only the second supports the second platform, and none the
  third.
\<close>

definition pypy_interpreter :: interpreter where
  "pypy_interpreter =
     \<lparr> binary = ''/usr/bin/pypy3.9'', version = (3, 9, 12),
       supported_platforms = [''linux_x86_64-cp-39-cp39'', ''linux_x86_64-pp-39-pypy39_pp73''] \<rparr>"

definition two_interpreter_world :: world where
  "two_interpreter_world =
     example_world \<lparr> reachable := (\<lambda>p. [example_interpreter, pypy_interpreter]) \<rparr>"

definition two_platform_options :: options where
  "two_platform_options =
     default_options
       \<lparr> platforms := [Some ''linux_x86_64-cp-39-cp39'',
                       Some ''linux_x86_64-pp-39-pypy39_pp73'',
                       Some ''macosx_10_9_x86_64-cp-39-cp39'', None],
         resolve_local_platforms := True \<rparr>"

text \<open>A world in which no interpreter satisfies any constraint.\<close>

definition unsatisfiable_world :: world where
  "unsatisfiable_world = example_world \<lparr> satisfies := (\<lambda>i c. False) \<rparr>"

text \<open>A world in which the constraints are malformed.\<close>

definition malformed_world :: world where
  "malformed_world =
     example_world \<lparr> malformed := (\<lambda>cs. Some ''Compatibility requirements are not formatted properly'') \<rparr>"

section \<open>Properties\<close>

subsection \<open>Running the effects\<close>

lemma ret_apply: "ret x t = (t, Inr x)"
  by (simp add: ret_def)

lemma raise_apply: "raise e t = (t, Inl e)"
  by (simp add: raise_def)

lemma die_apply: "die msg code t = (t, Inl (Die msg code))"
  by (simp add: die_def raise_def)

lemma emit_apply: "emit ev t = (t @ [ev], Inr ())"
  by (simp add: emit_def)

lemma bnd_apply:
  "bnd m f t = (case m t of (t', Inl e) \<Rightarrow> (t', Inl e) | (t', Inr x) \<Rightarrow> f x t')"
  by (simp add: bnd_def)

lemma bnd_ret: "bnd (ret x) f = f x"
  by (simp add: bnd_def ret_def)

lemma bnd_raise: "bnd (raise e) f = raise e"
  by (simp add: bnd_def raise_def)

lemma bnd_die: "bnd (die msg code) f = die msg code"
  by (simp add: die_def bnd_raise)

lemma bnd_emit: "bnd (emit ev) f t = f () (t @ [ev])"
  by (simp add: bnd_def emit_def)

lemma bnd_Inr: "m t = (t', Inr x) \<Longrightarrow> bnd m f t = f x t'"
  by (simp add: bnd_def)

lemma bnd_Inl: "m t = (t', Inl e) \<Longrightarrow> bnd m f t = (t', Inl e)"
  by (simp add: bnd_def)

lemma when_do_True: "when_do True m = m"
  by (simp add: when_do_def)

lemma when_do_False: "when_do False m = ret ()"
  by (simp add: when_do_def)

subsection \<open>Which events a computation appends\<close>

lemma addsI: "(\<And>t. \<exists>es. fst (m t) = t @ es \<and> list_all Q es) \<Longrightarrow> adds Q m"
  by (simp add: adds_def)

lemma addsD: "adds Q m \<Longrightarrow> \<exists>es. fst (m t) = t @ es \<and> list_all Q es"
  by (simp add: adds_def)

lemma adds_ret: "adds Q (ret x)"
  by (simp add: adds_def ret_def)

lemma adds_raise: "adds Q (raise e)"
  by (simp add: adds_def raise_def)

lemma adds_die: "adds Q (die msg code)"
  by (simp add: die_def adds_raise)

lemma adds_emit: "Q ev \<Longrightarrow> adds Q (emit ev)"
  by (simp add: adds_def emit_def)

lemma adds_bnd:
  assumes "adds Q m" and "\<And>x. adds Q (f x)"
  shows "adds Q (bnd m f)"
proof (rule addsI)
  fix t
  obtain t' r where mt: "m t = (t', r)" by (cases "m t")
  from addsD [OF assms(1), of t] mt obtain es where es: "t' = t @ es" "list_all Q es"
    by auto
  show "\<exists>es. fst (bnd m f t) = t @ es \<and> list_all Q es"
  proof (cases r)
    case (Inl e)
    with mt es show ?thesis by (simp add: bnd_def)
  next
    case (Inr x)
    from addsD [OF assms(2), of x t'] obtain es' where
      "fst (f x t') = t' @ es'" "list_all Q es'" by auto
    with mt es Inr show ?thesis by (simp add: bnd_def)
  qed
qed

lemma adds_when_do: "adds Q m \<Longrightarrow> adds Q (when_do b m)"
  by (simp add: when_do_def adds_ret)

lemma adds_map_io: "(\<And>x. adds Q (f x)) \<Longrightarrow> adds Q (map_io f xs)"
  by (induction xs) (auto intro!: adds_bnd adds_ret)

lemma adds_except_unsatisfiable:
  assumes "adds Q m" and "\<And>cs p. adds Q (h cs p)"
  shows "adds Q (except_unsatisfiable m h)"
proof (rule addsI)
  fix t
  obtain t' r where mt: "m t = (t', r)" by (cases "m t")
  from addsD [OF assms(1), of t] mt obtain es where es: "t' = t @ es" "list_all Q es"
    by auto
  show "\<exists>es. fst (except_unsatisfiable m h t) = t @ es \<and> list_all Q es"
  proof (cases "\<exists>cs p. r = Inl (UnsatisfiableInterpreterConstraintsError cs p)")
    case True
    then obtain cs p where r: "r = Inl (UnsatisfiableInterpreterConstraintsError cs p)" by auto
    from addsD [OF assms(2), of cs p t'] obtain es' where
      "fst (h cs p t') = t' @ es'" "list_all Q es'" by auto
    with mt es r show ?thesis by (simp add: except_unsatisfiable_def)
  next
    case False
    with mt es show ?thesis
      by (auto simp: except_unsatisfiable_def split: sum.splits failure.splits)
  qed
qed

lemma adds_safe_mkdtemp: "(\<And>d. Q (SafeMkdtemp d)) \<Longrightarrow> adds Q (safe_mkdtemp w)"
  by (rule addsI) (simp add: safe_mkdtemp_def Let_def)

lemma adds_if: "(c \<Longrightarrow> adds Q a) \<Longrightarrow> (\<not> c \<Longrightarrow> adds Q b) \<Longrightarrow> adds Q (if c then a else b)"
  by simp

lemma adds_case_option:
  "(x = None \<Longrightarrow> adds Q a) \<Longrightarrow> (\<And>y. x = Some y \<Longrightarrow> adds Q (b y)) \<Longrightarrow>
   adds Q (case x of None \<Rightarrow> a | Some y \<Rightarrow> b y)"
  by (cases x) simp_all

lemma adds_case_sum:
  "(\<And>y. adds Q (a y)) \<Longrightarrow> (\<And>y. adds Q (b y)) \<Longrightarrow>
   adds Q (case x of Inl y \<Rightarrow> a y | Inr y \<Rightarrow> b y)"
  by (cases x) simp_all

lemma adds_case_prod: "(\<And>a b. adds Q (f a b)) \<Longrightarrow> adds Q (case x of (a, b) \<Rightarrow> f a b)"
  by (cases x) simp

lemma adds_filter:
  assumes "adds Q m" and "\<And>ev. Q ev \<Longrightarrow> \<not> P ev"
  shows "filter P (fst (m t)) = filter P t"
proof -
  from addsD [OF assms(1), of t] obtain es where es: "fst (m t) = t @ es" "list_all Q es"
    by auto
  from es(2) assms(2) have "filter P es = []"
    by (induction es) auto
  with es(1) show ?thesis by simp
qed

lemma adds_prefix: "adds Q m \<Longrightarrow> prefix t (fst (m t))"
  by (auto dest: addsD [of Q m t])

lemma adds_validate_constraints: "Q (ValidateConstraints cs) \<Longrightarrow> adds Q (validate_constraints w cs)"
  unfolding validate_constraints_def
  by (intro adds_bnd adds_emit adds_case_option adds_ret adds_die)

lemma adds_iter_compatible_interpreters:
  "Q (IterCompatibleInterpreters p cs) \<Longrightarrow> adds Q (iter_compatible_interpreters w p cs)"
  unfolding iter_compatible_interpreters_def Let_def
  by (intro adds_bnd adds_emit adds_if adds_ret adds_raise)

lemma adds_to_python_interpreter:
  "Q (FromBinary n) \<Longrightarrow> Q (FromEnv n) \<Longrightarrow> adds Q (to_python_interpreter w n)"
  unfolding to_python_interpreter_def
  by (intro adds_if adds_bnd adds_emit adds_case_option adds_ret adds_die)

lemma adds_resolve_interpreters:
  assumes "\<And>ev. is_probe ev \<Longrightarrow> Q ev" and "\<And>cs. Q (ValidateConstraints cs)"
  shows "adds Q (resolve_interpreters w opts p)"
  unfolding resolve_interpreters_def
  by (intro adds_if adds_bnd adds_ret adds_die adds_map_io adds_to_python_interpreter
        adds_validate_constraints adds_except_unsatisfiable adds_iter_compatible_interpreters
        assms) simp_all

lemma adds_claim_platforms:
  "(\<And>r. Q (Resolved c r)) \<Longrightarrow> adds Q (claim_platforms c rs ps)"
proof (induction rs arbitrary: ps)
  case Nil
  show ?case by (simp add: adds_ret)
next
  case (Cons r rs)
  show ?case
    unfolding claim_platforms.simps
    by (intro adds_bnd adds_emit adds_case_sum adds_raise Cons)
qed

lemma adds_match_candidates:
  "(\<And>c r. Q (Resolved c r)) \<Longrightarrow> adds Q (match_candidates cs ps is)"
proof (induction cs arbitrary: ps "is")
  case Nil
  show ?case by (simp add: adds_ret)
next
  case (Cons c cs)
  show ?case
    unfolding match_candidates.simps Let_def
    by (intro adds_if adds_bnd adds_claim_platforms Cons)
qed

lemma adds_resolve_local_platforms_step:
  assumes "\<And>ev. is_probe ev \<Longrightarrow> Q ev" and "\<And>c r. Q (Resolved c r)"
  shows "adds Q (resolve_local_platforms_step w opts p is)"
  unfolding resolve_local_platforms_step_def candidate_interpreters_def
  by (intro adds_if adds_bnd adds_ret adds_emit adds_match_candidates
        adds_iter_compatible_interpreters assms) simp_all

lemma adds_select_interpreters:
  assumes "\<And>ev. is_probe ev \<Longrightarrow> Q ev" and "\<And>cs. Q (ValidateConstraints cs)"
    and "\<And>c r. Q (Resolved c r)"
  shows "adds Q (select_interpreters w opts)"
  unfolding select_interpreters_def Let_def
  by (intro adds_bnd adds_resolve_interpreters adds_resolve_local_platforms_step assms)

subsection \<open>The checks at the start of main\<close>

lemma configure_clp_apply: "configure_clp t = (t @ [GetInterpreter], Inr ())"
  by (simp add: configure_clp_def emit_apply)

lemma safe_mkdtemp_apply:
  "safe_mkdtemp w t = (t @ [SafeMkdtemp (mkdtemp w (length (filter is_mkdtemp t)))],
                       Inr (mkdtemp w (length (filter is_mkdtemp t))))"
  by (simp add: safe_mkdtemp_def Let_def)

lemma check_tmpdir_apply:
  "check_tmpdir w opts t =
     (t, case tmpdir_message w (realpath w (tmpdir opts)) of
           Some msg \<Rightarrow> Inl (Die msg None) | None \<Rightarrow> Inr ())"
  by (simp add: check_tmpdir_def die_apply ret_apply split: option.splits)

lemma check_cache_dir_apply:
  "check_cache_dir opts t =
     (if truthy (cache_dir opts)
      then (t @ [Warn cache_dir_warning],
            if cache_dir_conflict opts then Inl (Die cache_dir_conflict_message None) else Inr ())
      else (t, Inr ()))"
  by (simp add: check_cache_dir_def cache_dir_conflict_def when_do_def bnd_emit die_apply ret_apply)

lemma choose_pex_root_apply:
  "choose_pex_root w opts t =
     (if disable_cache opts
      then (let t' = t @ (case pex_root_source w opts of
                            None \<Rightarrow> [] | Some via \<Rightarrow> [Warn (ignore_pex_root_warning via)])
            in safe_mkdtemp w t')
      else (t, Inr (py_or (cache_dir opts) (py_or (pex_root opts) (ENV_PEX_ROOT w)))))"
  by (simp add: choose_pex_root_def pex_root_source_def warn_ignore_pex_root_def bnd_apply
      emit_apply ret_apply)

lemma check_python_options_apply:
  "check_python_options opts t =
     (t, if python opts \<noteq> [] \<and> interpreter_constraint opts \<noteq> []
         then Inl (Die python_conflict_message None) else Inr ())"
  by (simp add: check_python_options_def when_do_def die_apply ret_apply)

lemma filter_probe_choose:
  "filter is_probe (fst (choose_pex_root w opts t)) = filter is_probe t"
  by (simp add: choose_pex_root_apply safe_mkdtemp_apply Let_def split: option.splits)

lemma choose_pex_root_Inr: "\<exists>r. snd (choose_pex_root w opts t) = Inr r"
  by (simp add: choose_pex_root_apply safe_mkdtemp_apply Let_def)

subsection \<open>The stages of build_pex\<close>

lemma bnd_assoc: "bnd (bnd m f) g = bnd m (\<lambda>x. bnd (f x) g)"
  by (auto simp: bnd_def fun_eq_iff split: prod.splits sum.splits)

lemma bnd_Inr_elim:
  assumes "bnd m f t = (t', Inr y)"
  obtains t1 x where "m t = (t1, Inr x)" and "f x t1 = (t', Inr y)"
  using assms by (auto simp: bnd_def split: prod.splits sum.splits)

lemma prefix_bnd:
  assumes "prefix p (fst (m t))" and "\<And>x. adds Q (f x)"
  shows "prefix p (fst (bnd m f t))"
proof -
  obtain t' r where mt: "m t = (t', r)" by (cases "m t")
  show ?thesis
  proof (cases r)
    case (Inl e)
    with mt assms(1) show ?thesis by (simp add: bnd_def)
  next
    case (Inr x)
    have "prefix t' (fst (f x t'))" by (rule adds_prefix [OF assms(2)])
    with mt assms(1) Inr show ?thesis by (auto simp: bnd_def)
  qed
qed

lemma adds_read_preamble: "adds Q (read_preamble w opts)"
  unfolding read_preamble_def
  by (intro adds_case_option adds_if adds_ret adds_raise)

lemma deprecation_warnings_apply:
  "deprecation_warnings opts t = (t @ map Warn (deprecated_option_warnings opts), Inr ())"
  by (simp add: deprecation_warnings_def deprecated_option_warnings_def when_do_def bnd_apply
      emit_apply ret_apply)

lemma adds_deprecation_warnings: "(\<And>msg. Q (Warn msg)) \<Longrightarrow> adds Q (deprecation_warnings opts)"
  by (rule addsI) (auto simp: deprecation_warnings_apply list_all_iff)

lemma map_io_emit_apply:
  "map_io (\<lambda>x. emit (g x)) xs t = (t @ map g xs, Inr (map (\<lambda>x. ()) xs))"
  by (induction xs arbitrary: t) (simp_all add: ret_apply bnd_apply emit_apply)

lemma resolve_distributions_apply:
  "\<exists>ev r. is_resolver_call ev \<and>
          (\<forall>t. resolve_distributions w reqs rc opts cache interpreters ps t = (t @ [ev], r))"
  by (cases "repository rc")
    (auto simp: resolve_distributions_def Let_def bnd_apply emit_apply die_apply ret_apply
      split: sum.splits)


lemma add_distributions_apply:
  "\<exists>ev r. is_resolver_call ev \<and>
          (\<forall>t. add_distributions w reqs rc opts cache path preamble interpreters ps t =
                 (t @ map AddFromRequirementsPex (requirements_pexes opts) @ [ev], r))"
proof -
  from resolve_distributions_apply [of w reqs rc opts cache interpreters ps]
  obtain ev r where ev: "is_resolver_call ev"
    and run: "\<And>t. resolve_distributions w reqs rc opts cache interpreters ps t = (t @ [ev], r)"
    by blast
  show ?thesis
  proof (cases r)
    case (Inl e)
    with ev run show ?thesis
      by (intro exI [of _ ev] exI [of _ "Inl e"])
        (simp add: add_distributions_def bnd_apply map_io_emit_apply)
  next
    case (Inr result)
    with ev run show ?thesis
      by (intro exI [of _ ev])
        (simp add: add_distributions_def bnd_apply map_io_emit_apply ret_apply)
  qed
qed

lemma finish_builder_apply:
  "finish_builder opts b t =
     (t, if truthy (entry_point opts) \<and> truthy (script opts)
         then Inl (Die ''Must specify at most one entry point or script.'' (Some INVALID_OPTIONS))
         else Inr (b \<lparr> builder_entry := entry_of opts,
                       builder_shebang :=
                         (if truthy (python_shebang opts) then python_shebang opts else None) \<rparr>))"
  by (simp add: finish_builder_def die_apply ret_apply)

lemma populate_builder_apply:
  "populate_builder w reqs rc opts cache t =
     (case select_interpreters w opts t of
        (t1, Inl e) \<Rightarrow> (t1, Inl e)
      | (t1, Inr (ps, interpreters)) \<Rightarrow>
          (case read_preamble w opts t1 of
             (t2, Inl e) \<Rightarrow> (t2, Inl e)
           | (t2, Inr preamble) \<Rightarrow>
               add_distributions w reqs rc opts cache
                 (mkdtemp w (length (filter is_mkdtemp t2))) preamble interpreters ps
                 (t2 @ SafeMkdtemp (mkdtemp w (length (filter is_mkdtemp t2)))
                     # map Warn (deprecated_option_warnings opts))))"
  by (simp add: populate_builder_def bnd_apply safe_mkdtemp_apply deprecation_warnings_apply
      split: prod.splits sum.splits)

lemma build_pex_apply:
  "build_pex w reqs rc opts cache t =
     (case populate_builder w reqs rc opts cache t of
        (t', Inl e) \<Rightarrow> (t', Inl e)
      | (t', Inr b) \<Rightarrow> finish_builder opts b t')"
  by (simp add: build_pex_def bnd_apply)

lemma populate_builder_resolver_calls:
  assumes "populate_builder w reqs rc opts cache t = (t', Inr b)"
  shows "length (filter is_resolver_call t') = Suc (length (filter is_resolver_call t))"
proof -
  let ?Q = "\<lambda>ev. \<not> is_resolver_call ev"
  have "\<not> is_resolver_call ev" if "is_probe ev" for ev
    using that by (cases ev) simp_all
  then have sel: "adds ?Q (select_interpreters w opts)"
    by (intro adds_select_interpreters) simp_all
  have pre: "adds ?Q (read_preamble w opts)"
    by (rule adds_read_preamble)
  obtain t1 r1 where s1: "select_interpreters w opts t = (t1, r1)"
    by (cases "select_interpreters w opts t")
  with assms obtain ps interpreters where r1: "r1 = Inr (ps, interpreters)"
    by (cases r1) (auto simp: populate_builder_apply)
  obtain t2 r2 where s2: "read_preamble w opts t1 = (t2, r2)"
    by (cases "read_preamble w opts t1")
  with assms s1 r1 obtain preamble where r2: "r2 = Inr preamble"
    by (cases r2) (auto simp: populate_builder_apply)
  from adds_filter [OF sel, of is_resolver_call t] s1
  have f1: "filter is_resolver_call t1 = filter is_resolver_call t" by simp
  from adds_filter [OF pre, of is_resolver_call t1] s2
  have f2: "filter is_resolver_call t2 = filter is_resolver_call t1" by simp
  from add_distributions_apply
    [of w reqs rc opts cache "mkdtemp w (length (filter is_mkdtemp t2))" preamble interpreters ps]
  obtain ev r where ev: "is_resolver_call ev"
    and run: "\<And>t. add_distributions w reqs rc opts cache
                 (mkdtemp w (length (filter is_mkdtemp t2))) preamble interpreters ps t =
               (t @ map AddFromRequirementsPex (requirements_pexes opts) @ [ev], r)"
    by blast
  have nw: "filter is_resolver_call (map Warn xs) = []" for xs
    by (induction xs) simp_all
  have na: "filter is_resolver_call (map AddFromRequirementsPex xs) = []" for xs
    by (induction xs) simp_all
  from assms s1 r1 s2 r2 run
  have "t' = (t2 @ SafeMkdtemp (mkdtemp w (length (filter is_mkdtemp t2)))
                  # map Warn (deprecated_option_warnings opts))
               @ map AddFromRequirementsPex (requirements_pexes opts) @ [ev]"
    by (simp add: populate_builder_apply)
  with ev f1 f2 show ?thesis by (simp add: nw na)
qed

lemma adds_add_distributions:
  "adds (\<lambda>ev. True) (add_distributions w reqs rc opts cache path preamble interpreters ps)"
proof (rule addsI)
  fix t
  from add_distributions_apply [of w reqs rc opts cache path preamble interpreters ps]
  obtain ev r where
    "add_distributions w reqs rc opts cache path preamble interpreters ps t =
       (t @ map AddFromRequirementsPex (requirements_pexes opts) @ [ev], r)"
    by blast
  then show "\<exists>es. fst (add_distributions w reqs rc opts cache path preamble interpreters ps t)
                 = t @ es \<and> list_all (\<lambda>ev. True) es"
    by (simp add: list_all_iff)
qed

lemma adds_finish_builder: "adds Q (finish_builder opts b)"
  by (rule addsI) (simp add: finish_builder_apply)

lemma resolve_interpreters_constraints:
  assumes "python opts = []" and "interpreter_constraint opts \<noteq> []"
  shows "resolve_interpreters w opts p t =
           (case malformed w (interpreter_constraint opts) of
              Some msg \<Rightarrow> (t @ [ValidateConstraints (interpreter_constraint opts)],
                           Inl (Die msg None))
            | None \<Rightarrow>
                (t @ [ValidateConstraints (interpreter_constraint opts),
                      IterCompatibleInterpreters p (interpreter_constraint opts)],
                 let found = filter (\<lambda>i. list_ex (satisfies w i) (interpreter_constraint opts))
                               (reachable w p)
                 in if found = []
                    then Inl (Die (create_message w (interpreter_constraint opts) p
                                     ''Could not find a compatible interpreter.'')
                                (Some CANNOT_SETUP_INTERPRETER))
                    else Inr (Some found)))"
  using assms
  by (simp add: resolve_interpreters_def validate_constraints_def
      iter_compatible_interpreters_def except_unsatisfiable_def bnd_apply emit_apply
      ret_apply die_apply raise_apply Let_def split: option.splits)

lemma adds_after_selection:
  "adds (\<lambda>ev. True)
     (case x of (ps, interpreters) \<Rightarrow>
        bnd (read_preamble w opts) (\<lambda>preamble.
        bnd (safe_mkdtemp w) (\<lambda>path.
        bnd (deprecation_warnings opts) (\<lambda>_.
          add_distributions w reqs rc opts cache path preamble interpreters ps))))"
  by (intro adds_case_prod adds_bnd adds_read_preamble adds_safe_mkdtemp
      adds_deprecation_warnings adds_add_distributions) simp_all





subsection \<open>The loop over the candidate interpreters\<close>

lemma foldl_ordered_set_add:
  "set (foldl ordered_set_add s xs) = set s \<union> set xs
   \<and> (distinct s \<longrightarrow> distinct (foldl ordered_set_add s xs))"
  by (induction xs arbitrary: s) (auto simp: ordered_set_add_def)

lemma set_OrderedSet: "set (OrderedSet xs) = set xs"
  by (simp add: OrderedSet_def foldl_ordered_set_add)

lemma distinct_OrderedSet: "distinct (OrderedSet xs)"
  by (simp add: OrderedSet_def foldl_ordered_set_add)

lemma set_intersection:
  "set (intersection supported ps) = {r \<in> set supported. Some r \<in> set ps}"
  by (auto simp: intersection_def)

lemma distinct_intersection: "distinct (intersection supported ps)"
  by (simp add: intersection_def)

lemma claim_platforms_apply:
  assumes "distinct rs" and "distinct ps" and "\<forall>r\<in>set rs. Some r \<in> set ps"
  shows "claim_platforms c rs ps t =
           (t @ map (Resolved c) rs, Inr (filter (\<lambda>p. p \<notin> Some ` set rs) ps))"
  using assms
proof (induction rs arbitrary: ps t)
  case Nil
  then show ?case by (simp add: ret_apply)
next
  case (Cons r rs)
  let ?ps = "filter (\<lambda>p. Some r \<noteq> p) ps"
  from Cons.prems have rm: "ordered_set_remove ps (Some r) = Inr ?ps"
    by (simp add: ordered_set_remove_def distinct_remove1_removeAll removeAll_filter_not_eq)
  from Cons.prems have "distinct rs" "distinct ?ps" "\<forall>r'\<in>set rs. Some r' \<in> set ?ps"
    by auto
  from Cons.IH [OF this, of "t @ [Resolved c r]"] rm
  show ?case
    by (auto simp: bnd_apply emit_apply intro: filter_cong)
qed



lemma match_candidates_props:
  assumes "distinct ps"
  shows "\<exists>es ps' claimers.
           match_candidates cs ps is t = (t @ es, Inr (ps', is @ claimers))
         \<and> distinct ps'
         \<and> set ps' = set ps - Some ` (\<Union>c\<in>set cs. set (supported_platforms c))
         \<and> (\<forall>c r. Resolved c r \<in> set es \<longleftrightarrow> Some r \<in> set ps \<and> claimed_by cs r = Some c)
         \<and> (\<forall>ev\<in>set es. \<exists>c r. ev = Resolved c r)
         \<and> set claimers = {c. \<exists>r. Resolved c r \<in> set es}"
  using assms
proof (induction cs arbitrary: ps "is" t)
  case Nil
  show ?case
    by (rule exI [of _ "[]"], rule exI [of _ ps], rule exI [of _ "[]"])
      (simp add: ret_apply claimed_by_def Nil)
next
  case (Cons c cs)
  let ?res = "intersection (supported_platforms c) ps"
  show ?case
  proof (cases "?res = []")
    case True
    then have none: "\<And>r. r \<in> set (supported_platforms c) \<Longrightarrow> Some r \<notin> set ps"
      using set_intersection [of "supported_platforms c" ps] by auto
    from Cons.IH [OF Cons.prems, of "is" t] obtain es ps' claimers where
      run: "match_candidates cs ps is t = (t @ es, Inr (ps', is @ claimers))"
      and d: "distinct ps'"
      and s: "set ps' = set ps - Some ` (\<Union>c\<in>set cs. set (supported_platforms c))"
      and e: "\<forall>c r. Resolved c r \<in> set es \<longleftrightarrow> Some r \<in> set ps \<and> claimed_by cs r = Some c"
      and k: "\<forall>ev\<in>set es. \<exists>c r. ev = Resolved c r"
      and cl: "set claimers = {c. \<exists>r. Resolved c r \<in> set es}"
      by blast
    have s': "set ps' = set ps - Some ` (\<Union>c\<in>set (c # cs). set (supported_platforms c))"
      using s none by auto
    have e': "\<forall>c' r. Resolved c' r \<in> set es \<longleftrightarrow>
                Some r \<in> set ps \<and> claimed_by (c # cs) r = Some c'"
      using e none by (auto simp: claimed_by_def)
    from True run d s' e' k cl show ?thesis
      by (intro exI [of _ es] exI [of _ ps'] exI [of _ claimers]) (simp add: Let_def)
  next
    case False
    let ?ps1 = "filter (\<lambda>p. p \<notin> Some ` set ?res) ps"
    have claim: "claim_platforms c ?res ps t = (t @ map (Resolved c) ?res, Inr ?ps1)"
      by (rule claim_platforms_apply)
        (simp_all add: distinct_intersection set_intersection Cons.prems)
    have d1: "distinct ?ps1" using Cons.prems by simp
    from Cons.IH [OF d1, of "is @ [c]" "t @ map (Resolved c) ?res"]
    obtain es ps' claimers where
      run: "match_candidates cs ?ps1 (is @ [c]) (t @ map (Resolved c) ?res) =
              ((t @ map (Resolved c) ?res) @ es, Inr (ps', (is @ [c]) @ claimers))"
      and d: "distinct ps'"
      and s: "set ps' = set ?ps1 - Some ` (\<Union>c\<in>set cs. set (supported_platforms c))"
      and e: "\<forall>c r. Resolved c r \<in> set es \<longleftrightarrow> Some r \<in> set ?ps1 \<and> claimed_by cs r = Some c"
      and k: "\<forall>ev\<in>set es. \<exists>c r. ev = Resolved c r"
      and cl: "set claimers = {c. \<exists>r. Resolved c r \<in> set es}"
      by blast
    have in1: "Some r \<in> set ?ps1 \<longleftrightarrow> Some r \<in> set ps \<and> r \<notin> set (supported_platforms c)" for r
      by (auto simp: set_intersection)
    have s': "set ps' = set ps - Some ` (\<Union>c\<in>set (c # cs). set (supported_platforms c))"
      using s by (auto simp: set_intersection)
    have e': "\<forall>c' r. Resolved c' r \<in> set (map (Resolved c) ?res @ es) \<longleftrightarrow>
                Some r \<in> set ps \<and> claimed_by (c # cs) r = Some c'"
      using e in1 by (auto simp: claimed_by_def set_intersection)
    have k': "\<forall>ev\<in>set (map (Resolved c) ?res @ es). \<exists>c r. ev = Resolved c r"
      using k by auto
    from False obtain r0 where "r0 \<in> set ?res" by (cases ?res) auto
    then have cl': "set (c # claimers) = {c'. \<exists>r. Resolved c' r \<in> set (map (Resolved c) ?res @ es)}"
      using cl by auto
    from False claim run d s' e' k' cl' show ?thesis
      by (intro exI [of _ "map (Resolved c) ?res @ es"] exI [of _ ps'] exI [of _ "c # claimers"])
        (simp add: Let_def bnd_apply)
  qed
qed


lemma candidate_interpreters_apply:
  "candidate_interpreters w path t =
     (t @ [IterCompatibleInterpreters path [], GetInterpreter],
      Inr (ordered_set_add (OrderedSet (reachable w path)) (get_interpreter w)))"
  by (simp add: candidate_interpreters_def iter_compatible_interpreters_def bnd_apply
      emit_apply ret_apply)

lemma claimed_by_Some_iff:
  "(\<exists>c. claimed_by cs r = Some c) \<longleftrightarrow> r \<in> (\<Union>c\<in>set cs. set (supported_platforms c))"
  by (induction cs) (auto simp: claimed_by_def)

subsection \<open>seed_cache without a content hash\<close>

text \<open>
  C9. In non-venv seeding, when the metadata of the artifact carries no \<^verbatim>\<open>pex_hash\<close>,
  \<^verbatim>\<open>seed_cache\<close> raises an \<^verbatim>\<open>AssertionError\<close> whose message names the metadata file
  (\<^verbatim>\<open>PexInfo.PATH\<close>) and the path of the artifact, and nothing has happened before: the
  trace is the one it started with, so no installation into the cache was made or asked for,
  whatever \<^verbatim>\<open>maybe_install\<close> would do.
\<close>

theorem seed_cache_no_hash:
  assumes "venv opts = None" and "pex_info_pex_hash pex = None"
  shows "seed_cache w opts path pex verbose t =
           (t, Inl (AssertionError
                  (''There was no pex_hash stored in '' @ PexInfo_PATH w @ '' for '' @ path @ ''.'')))"
  using assms by (simp add: seed_cache_def raise_apply)

theorem seed_cache_no_hash_witness:
  "seed_cache seeding_world default_options ''/out/app.pex''
     (example_pex \<lparr> pex_info_pex_hash := None \<rparr>) False [SafeMkdtemp ''/tmp/pex'']
   = ([SafeMkdtemp ''/tmp/pex''],
      Inl (AssertionError ''There was no pex_hash stored in PEX-INFO for /out/app.pex.''))"
  using seed_cache_no_hash [of default_options "example_pex \<lparr> pex_info_pex_hash := None \<rparr>"
      seeding_world "''/out/app.pex''" False "[SafeMkdtemp ''/tmp/pex'']"]
  by (simp add: default_options_def example_world_def seeding_world_def)

subsection \<open>Interpreters given both by path and by constraint\<close>

text \<open>
  C2, as the code has it. When both \<^verbatim>\<open>--python\<close> and \<^verbatim>\<open>--interpreter-constraint\<close> are
  given, \<^verbatim>\<open>main\<close> fails by \<^verbatim>\<open>die\<close> before \<^verbatim>\<open>build_pex\<close> is entered. One
  interpreter has been inspected by then, the current one, by \<^verbatim>\<open>configure_clp\<close> before
  the options are parsed; no interpreter named by \<^verbatim>\<open>--python\<close> is looked for, the search
  path is not gone through, and no resolver is called. The failure is the one
  of the temporary directory or of the \<^verbatim>\<open>--cache-dir\<close> conflict when one of these checks
  fails first, and the conflict of the two options otherwise. In every case \<^verbatim>\<open>die\<close> is
  called without an exit code: the exit status is the default of \<^verbatim>\<open>die\<close>, the one of the
  generic fatal path, not \<^verbatim>\<open>INVALID_OPTIONS\<close>.
\<close>

theorem main_python_and_interpreter_constraint:
  assumes "python opts \<noteq> []" and "interpreter_constraint opts \<noteq> []"
  shows "snd (main w opts cmdline t) =
           Inl (Die (case tmpdir_message w (realpath w (tmpdir opts)) of
                       Some msg \<Rightarrow> msg
                     | None \<Rightarrow> if cache_dir_conflict opts then cache_dir_conflict_message
                               else python_conflict_message) None)
         \<and> filter is_probe (fst (main w opts cmdline t)) = filter is_probe t @ [GetInterpreter]
         \<and> filter is_resolver_call (fst (main w opts cmdline t)) = filter is_resolver_call t"
  using assms
  by (auto simp: main_def bnd_apply configure_clp_apply check_tmpdir_apply check_cache_dir_apply
      choose_pex_root_apply safe_mkdtemp_apply check_python_options_apply Let_def
      cache_dir_conflict_def split: option.splits)

theorem main_python_and_interpreter_constraint_witness:
  "python python_conflict_options \<noteq> [] \<and> interpreter_constraint python_conflict_options \<noteq> []
   \<and> snd (main example_world python_conflict_options [] []) =
       Inl (Die python_conflict_message None)
   \<and> filter is_probe (fst (main example_world python_conflict_options [] [])) =
       [GetInterpreter]"
  using main_python_and_interpreter_constraint
    [of python_conflict_options example_world "[]" "[]"]
  by (simp add: python_conflict_options_def default_options_def example_world_def
      tmpdir_message_def cache_dir_conflict_def truthy_def)

text \<open>
  The claim as stated fails: for \<^verbatim>\<open>--python python3.9 --interpreter-constraint ">=3.8"\<close>
  the current interpreter has been inspected when the conflict is found, and the call is
  \<^verbatim>\<open>die(msg)\<close> with no exit code, as for a missing temporary directory, and not
  \<^verbatim>\<open>die(msg, INVALID_OPTIONS)\<close>.
\<close>

theorem main_python_and_interpreter_constraint_counterexample:
  "main example_world python_conflict_options [] [] =
     ([GetInterpreter], Inl (Die python_conflict_message None))
   \<and> snd (main example_world python_conflict_options [] []) \<noteq>
       Inl (Die python_conflict_message (Some INVALID_OPTIONS))
   \<and> main (example_world \<lparr> path_exists := (\<lambda>p. False) \<rparr>) python_conflict_options [] [] =
       ([GetInterpreter], Inl (Die ''The specified --tmpdir does not exist: /tmp'' None))"
  by (simp add: main_def bnd_apply configure_clp_apply check_tmpdir_apply check_cache_dir_apply
      choose_pex_root_apply check_python_options_apply python_conflict_options_def
      default_options_def example_world_def tmpdir_message_def truthy_def)

subsection \<open>The pex root when the cache is disabled\<close>

text \<open>
  C10, as the code has it. With \<^verbatim>\<open>--disable-cache\<close>, once the parser has been made
  and the temporary directory has been checked and unless \<^verbatim>\<open>--cache-dir\<close> and \<^verbatim>\<open>--pex-root\<close> conflict (which is fatal
  before, at lines 902-906), the rest of \<^verbatim>\<open>main\<close> runs with a directory freshly made by
  \<^verbatim>\<open>safe_mkdtemp\<close> as its pex root, whatever \<^verbatim>\<open>--cache-dir\<close>, \<^verbatim>\<open>--pex-root\<close> and
  \<^verbatim>\<open>PEX_ROOT\<close> say. Before that directory is made, the deprecation warning of
  \<^verbatim>\<open>--cache-dir\<close> is given when that option is present, and then at most one warning that a
  pex root is ignored, naming the source of highest precedence that is present.
\<close>

theorem main_disable_cache:
  assumes "disable_cache opts"
    and "tmpdir_message w (realpath w (tmpdir opts)) = None"
    and "\<not> cache_dir_conflict opts"
  shows "main w opts cmdline t =
           bnd (check_python_options opts) (\<lambda>_.
             bnd (resolve_configuration_of w opts)
               (run_build w opts cmdline (mkdtemp w (length (filter is_mkdtemp t)))))
             (t @ [GetInterpreter]
                @ (if truthy (cache_dir opts) then [Warn cache_dir_warning] else [])
                @ (case pex_root_source w opts of
                     None \<Rightarrow> [] | Some via \<Rightarrow> [Warn (ignore_pex_root_warning via)])
                @ [SafeMkdtemp (mkdtemp w (length (filter is_mkdtemp t)))])"
  using assms
  by (simp add: main_def bnd_def configure_clp_apply check_tmpdir_apply check_cache_dir_apply
      choose_pex_root_apply safe_mkdtemp_apply Let_def is_mkdtemp_def
      split: option.splits)

theorem main_disable_cache_witness:
  "disable_cache disable_cache_options
   \<and> tmpdir_message example_world (realpath example_world (tmpdir disable_cache_options)) = None
   \<and> \<not> cache_dir_conflict disable_cache_options
   \<and> main example_world disable_cache_options [] [] =
       bnd (check_python_options disable_cache_options) (\<lambda>_.
         bnd (resolve_configuration_of example_world disable_cache_options)
           (run_build example_world disable_cache_options [] ''/tmp/pex''))
         [GetInterpreter, Warn (ignore_pex_root_warning ''--pex-root''),
          SafeMkdtemp ''/tmp/pex'']"
  using main_disable_cache [of disable_cache_options example_world "[]" "[]"]
  by (simp add: disable_cache_options_def default_options_def example_world_def
      tmpdir_message_def cache_dir_conflict_def truthy_def pex_root_source_def)

text \<open>
  The claim as stated fails: with \<^verbatim>\<open>--disable-cache --cache-dir /a --pex-root /b\<close> the two
  values are compared and the run dies of their conflict; no temporary pex root is made.
\<close>

theorem main_disable_cache_counterexample:
  "main example_world disable_cache_conflict_options [] [] =
     ([GetInterpreter, Warn cache_dir_warning], Inl (Die cache_dir_conflict_message None))"
  by (simp add: main_def bnd_apply configure_clp_apply check_tmpdir_apply check_cache_dir_apply
      disable_cache_conflict_options_def default_options_def example_world_def
      tmpdir_message_def cache_dir_conflict_def truthy_def)

subsection \<open>Entry point and script given together\<close>

text \<open>
  C1, as the code has it. When both an entry point and a script are given (and neither is
  the empty string), \<^verbatim>\<open>build_pex\<close> never returns a builder. The check is made at line
  846, after the resolution: when interpreter selection, the preamble or the resolution
  fails, that failure is the outcome; when they succeed, the outcome is the fatal
  \<^verbatim>\<open>INVALID_OPTIONS\<close> error, and by then the resolver (\<^verbatim>\<open>resolve\<close> or
  \<^verbatim>\<open>resolve_from_pex\<close>) has been called exactly once.
\<close>

theorem build_pex_entry_point_and_script:
  assumes "truthy (entry_point opts)" and "truthy (script opts)"
  shows "build_pex w reqs rc opts cache t =
           (case populate_builder w reqs rc opts cache t of
              (t', Inl e) \<Rightarrow> (t', Inl e)
            | (t', Inr b) \<Rightarrow>
                (t', Inl (Die ''Must specify at most one entry point or script.''
                           (Some INVALID_OPTIONS))))
         \<and> (\<forall>t' b. populate_builder w reqs rc opts cache t = (t', Inr b) \<longrightarrow>
               length (filter is_resolver_call t') = Suc (length (filter is_resolver_call t)))"
  using assms populate_builder_resolver_calls [of w reqs rc opts cache t]
  by (auto simp: build_pex_apply finish_builder_apply split: prod.splits sum.splits)

theorem build_pex_entry_point_and_script_witness:
  "truthy (entry_point entry_conflict_options) \<and> truthy (script entry_conflict_options)
   \<and> snd (build_pex example_world [] example_configuration entry_conflict_options None []) =
       Inl (Die ''Must specify at most one entry point or script.'' (Some INVALID_OPTIONS))
   \<and> length (filter is_resolver_call
         (fst (build_pex example_world [] example_configuration entry_conflict_options None [])))
       = 1"
  using build_pex_entry_point_and_script
    [of entry_conflict_options example_world "[]" example_configuration None "[]"]
  by (simp add: populate_builder_apply add_distributions_def resolve_distributions_def
      select_interpreters_def resolve_interpreters_def resolve_local_platforms_step_def
      read_preamble_def OrderedSet_def bnd_apply ret_apply emit_apply
      entry_conflict_options_def default_options_def example_world_def
      example_configuration_def truthy_def)

text \<open>
  The claim as stated fails: for \<^verbatim>\<open>-m pkg.mod:main -c somescript\<close> the resolver has been
  called when the conflict is reported.
\<close>

theorem build_pex_entry_point_and_script_counterexample:
  "build_pex example_world [] example_configuration entry_conflict_options None [] =
     ([SafeMkdtemp ''/tmp/pex'',
       Resolve \<lparr> r_requirements = [], r_requirement_files = [], r_constraint_files = [],
                 r_allow_prereleases = False, r_transitive = True, r_interpreters = [],
                 r_platforms = [],
                 r_repository = PipRepository [''https://pypi.org/simple''] [] ''pip-legacy-resolver'',
                 r_network_configuration = [], r_cache = None, r_build = True,
                 r_use_wheel = True, r_compile = False,
                 r_manylinux = Some ''manylinux2014'', r_max_parallel_jobs = 4,
                 r_ignore_errors = False \<rparr>],
      Inl (Die ''Must specify at most one entry point or script.'' (Some INVALID_OPTIONS)))"
  by (simp add: build_pex_apply finish_builder_apply populate_builder_apply
      add_distributions_def resolve_distributions_def
      select_interpreters_def resolve_interpreters_def resolve_local_platforms_step_def
      read_preamble_def OrderedSet_def bnd_apply ret_apply emit_apply
      deprecated_option_warnings_def is_mkdtemp_def
      entry_conflict_options_def default_options_def example_world_def
      example_configuration_def truthy_def)

subsection \<open>Interpreter constraints\<close>

text \<open>
  C4. With interpreter constraints and no \<^verbatim>\<open>--python\<close>, the first effect of
  \<^verbatim>\<open>build_pex\<close> is the validation of the constraints, so every probing of an
  interpreter comes after it; a malformed constraint is fatal at once, with nothing probed.
  When the constraints are well formed and no interpreter reachable on the search path
  satisfies any of them, \<^verbatim>\<open>build_pex\<close> dies with the message of the unsatisfiable
  constraints and the exit status \<^verbatim>\<open>CANNOT_SETUP_INTERPRETER\<close>, which is 102 and differs
  from \<^verbatim>\<open>INVALID_OPTIONS\<close>; the status is passed explicitly, so it is the exit status
  whatever the default of \<^verbatim>\<open>die\<close> is.
\<close>

theorem build_pex_interpreter_constraints:
  assumes "python opts = []" and "interpreter_constraint opts \<noteq> []"
  shows "prefix (t @ [ValidateConstraints (interpreter_constraint opts)])
           (fst (build_pex w reqs rc opts cache t))
    \<and> (\<forall>msg. malformed w (interpreter_constraint opts) = Some msg \<longrightarrow>
          build_pex w reqs rc opts cache t =
            (t @ [ValidateConstraints (interpreter_constraint opts)], Inl (Die msg None)))
    \<and> (malformed w (interpreter_constraint opts) = None \<and>
        list_all (\<lambda>i. \<not> list_ex (satisfies w i) (interpreter_constraint opts))
          (reachable w (pex_python_path_of w opts)) \<longrightarrow>
          build_pex w reqs rc opts cache t =
            (t @ [ValidateConstraints (interpreter_constraint opts),
                  IterCompatibleInterpreters (pex_python_path_of w opts)
                    (interpreter_constraint opts)],
             Inl (Die (create_message w (interpreter_constraint opts) (pex_python_path_of w opts)
                         ''Could not find a compatible interpreter.'')
                    (Some CANNOT_SETUP_INTERPRETER))))
    \<and> CANNOT_SETUP_INTERPRETER = 102 \<and> CANNOT_SETUP_INTERPRETER \<noteq> INVALID_OPTIONS
    \<and> (\<forall>d msg. exit_status d (Die msg (Some CANNOT_SETUP_INTERPRETER)) = Some 102)"
proof -
  let ?cs = "interpreter_constraint opts"
  let ?p = "pex_python_path_of w opts"
  note ri = resolve_interpreters_constraints [OF assms, of w ?p t]
  have pre_ri: "prefix (t @ [ValidateConstraints ?cs]) (fst (resolve_interpreters w opts ?p t))"
    by (simp add: ri split: option.splits)
  have sel: "prefix (t @ [ValidateConstraints ?cs]) (fst (select_interpreters w opts t))"
    unfolding select_interpreters_def Let_def
    by (rule prefix_bnd [where Q = "\<lambda>ev. True"], rule pre_ri)
      (intro adds_resolve_local_platforms_step, simp_all)
  have pop: "prefix (t @ [ValidateConstraints ?cs]) (fst (populate_builder w reqs rc opts cache t))"
    unfolding populate_builder_def
    by (rule prefix_bnd [where Q = "\<lambda>ev. True"], rule sel) (rule adds_after_selection)
  have first: "prefix (t @ [ValidateConstraints ?cs]) (fst (build_pex w reqs rc opts cache t))"
    unfolding build_pex_def
    by (rule prefix_bnd [where Q = "\<lambda>ev. True"], rule pop) (rule adds_finish_builder)
  have fail: "build_pex w reqs rc opts cache t = (t', Inl e)"
    if "resolve_interpreters w opts ?p t = (t', Inl e)" for t' e
    using that
    by (simp add: build_pex_def populate_builder_def select_interpreters_def Let_def bnd_Inl)
  have bad: "build_pex w reqs rc opts cache t = (t @ [ValidateConstraints ?cs], Inl (Die msg None))"
    if "malformed w ?cs = Some msg" for msg
    by (rule fail) (simp add: ri that)
  have none: "build_pex w reqs rc opts cache t =
      (t @ [ValidateConstraints ?cs, IterCompatibleInterpreters ?p ?cs],
       Inl (Die (create_message w ?cs ?p ''Could not find a compatible interpreter.'')
              (Some CANNOT_SETUP_INTERPRETER)))"
    if "malformed w ?cs = None"
      and "list_all (\<lambda>i. \<not> list_ex (satisfies w i) ?cs) (reachable w ?p)"
  proof -
    from that(2) have "filter (\<lambda>i. list_ex (satisfies w i) ?cs) (reachable w ?p) = []"
      by (simp add: filter_empty_conv list_all_iff)
    with that(1) show ?thesis by (intro fail) (simp add: ri)
  qed
  from first bad none show ?thesis
    by (simp add: CANNOT_SETUP_INTERPRETER_def INVALID_OPTIONS_def)
qed


theorem build_pex_interpreter_constraints_witness:
  "python constraint_options = [] \<and> interpreter_constraint constraint_options \<noteq> []
   \<and> malformed unsatisfiable_world (interpreter_constraint constraint_options) = None
   \<and> build_pex unsatisfiable_world [] example_configuration constraint_options None [] =
       ([ValidateConstraints [''>=3.8''], IterCompatibleInterpreters None [''>=3.8'']],
        Inl (Die ''Could not find a compatible interpreter.'' (Some 102)))
   \<and> build_pex malformed_world [] example_configuration constraint_options None [] =
       ([ValidateConstraints [''>=3.8'']],
        Inl (Die ''Compatibility requirements are not formatted properly'' None))"
proof -
  let ?cs = "[''>=3.8'']"
  have p: "python constraint_options = []"
    by (simp add: constraint_options_def default_options_def)
  have c: "interpreter_constraint constraint_options = ?cs"
    by (simp add: constraint_options_def default_options_def)
  then have ne: "interpreter_constraint constraint_options \<noteq> []"
    by simp
  have pu: "pex_python_path_of unsatisfiable_world constraint_options = None"
    by (simp add: pex_python_path_of_def truthy_def constraint_options_def default_options_def
        unsatisfiable_world_def example_world_def)
  have mu: "malformed unsatisfiable_world ?cs = None"
    by (simp add: unsatisfiable_world_def example_world_def)
  have nu: "list_all (\<lambda>i. \<not> list_ex (satisfies unsatisfiable_world i) ?cs)
              (reachable unsatisfiable_world None)"
    by (simp add: unsatisfiable_world_def example_world_def)
  have cu: "create_message unsatisfiable_world ?cs None
              ''Could not find a compatible interpreter.'' =
            ''Could not find a compatible interpreter.''"
    by (simp add: unsatisfiable_world_def example_world_def)
  have mm: "malformed malformed_world ?cs =
              Some ''Compatibility requirements are not formatted properly''"
    by (simp add: malformed_world_def example_world_def)
  have k: "CANNOT_SETUP_INTERPRETER = 102"
    by (simp add: CANNOT_SETUP_INTERPRETER_def)
  from build_pex_interpreter_constraints
    [OF p ne, of "[]" unsatisfiable_world "[]" example_configuration None]
    mu nu
  have unsat: "build_pex unsatisfiable_world [] example_configuration constraint_options None []
      = ([ValidateConstraints ?cs, IterCompatibleInterpreters None ?cs],
         Inl (Die ''Could not find a compatible interpreter.'' (Some 102)))"
    unfolding c pu cu k by simp
  from build_pex_interpreter_constraints
    [OF p ne, of "[]" malformed_world "[]" example_configuration None]
    mm
  have bad: "build_pex malformed_world [] example_configuration constraint_options None []
      = ([ValidateConstraints ?cs],
         Inl (Die ''Compatibility requirements are not formatted properly'' None))"
    unfolding c by simp
  from p ne mu unsat bad show ?thesis
    unfolding c by simp
qed

subsection \<open>Deprecated options\<close>




subsection \<open>Matching the platforms with local interpreters\<close>

lemma resolve_local_platforms_step_props:
  fixes w :: world and opts :: options and path "is" t
  defines "run \<equiv> resolve_local_platforms_step w opts path is t"
    and "cands \<equiv> ordered_set_add (OrderedSet (reachable w path)) (get_interpreter w)"
  shows "\<exists>ps' claimers.
           snd run = Inr (ps', is @ claimers)
         \<and> distinct ps' \<and> set ps' \<subseteq> set (platforms opts)
         \<and> (\<forall>p\<in>set (platforms opts).
               (p \<in> set ps') \<noteq>
               (\<exists>c r. p = Some r \<and> Resolved c r \<in> set (drop (length t) (fst run))))
         \<and> (\<forall>c r. Resolved c r \<in> set (drop (length t) (fst run)) \<longrightarrow>
               resolve_local_platforms opts \<and> Some r \<in> set (platforms opts)
               \<and> claimed_by cands r = Some c \<and> c \<in> set claimers)
         \<and> (\<forall>c\<in>set claimers. \<exists>r. Resolved c r \<in> set (drop (length t) (fst run)))
         \<and> (\<not> resolve_local_platforms opts \<longrightarrow>
               run = (t, Inr (OrderedSet (platforms opts), is))
               \<and> set (OrderedSet (platforms opts)) = set (platforms opts))"
proof (cases "platforms opts \<noteq> [] \<and> resolve_local_platforms opts")
  case True
  let ?t = "t @ [IterCompatibleInterpreters path [], GetInterpreter]"
  let ?ps = "OrderedSet (platforms opts)"
  from match_candidates_props [OF distinct_OrderedSet, of cands "platforms opts" "is" ?t]
  obtain es ps' claimers where
    m: "match_candidates cands ?ps is ?t = (?t @ es, Inr (ps', is @ claimers))"
    and d: "distinct ps'"
    and s: "set ps' = set ?ps - Some ` (\<Union>c\<in>set cands. set (supported_platforms c))"
    and e: "\<forall>c r. Resolved c r \<in> set es \<longleftrightarrow> Some r \<in> set ?ps \<and> claimed_by cands r = Some c"
    and k: "\<forall>ev\<in>set es. \<exists>c r. ev = Resolved c r"
    and cl: "set claimers = {c. \<exists>r. Resolved c r \<in> set es}"
    by blast
  from True m have run: "run = (?t @ es, Inr (ps', is @ claimers))"
    by (simp add: run_def resolve_local_platforms_step_def bnd_apply
        candidate_interpreters_apply cands_def)
  then have new: "drop (length t) (fst run) =
      [IterCompatibleInterpreters path [], GetInterpreter] @ es"
    by simp
  have ev: "Resolved c r \<in> set (drop (length t) (fst run)) \<longleftrightarrow> Resolved c r \<in> set es" for c r
    by (simp add: new)
  have one: "(p \<in> set ps') \<noteq> (\<exists>c r. p = Some r \<and> Resolved c r \<in> set es)"
    if "p \<in> set (platforms opts)" for p
  proof (cases "p \<in> Some ` (\<Union>c\<in>set cands. set (supported_platforms c))")
    case True
    then obtain r where r: "p = Some r" "r \<in> (\<Union>c\<in>set cands. set (supported_platforms c))"
      by auto
    with claimed_by_Some_iff [of cands r] obtain c where "claimed_by cands r = Some c" by blast
    with r that e have "Resolved c r \<in> set es" by (simp add: set_OrderedSet)
    with r True s show ?thesis by auto
  next
    case False
    then have "\<not> (\<exists>c r. p = Some r \<and> Resolved c r \<in> set es)"
      using e claimed_by_Some_iff [of cands] by (auto simp: image_iff) blast
    with False that s show ?thesis by (simp add: set_OrderedSet)
  qed
  from True run d s e cl one show ?thesis
    by (intro exI [of _ ps'] exI [of _ claimers]) (auto simp: ev set_OrderedSet)
next
  case False
  then have run: "run = (t, Inr (OrderedSet (platforms opts), is))"
    by (auto simp: run_def resolve_local_platforms_step_def ret_apply)
  then show ?thesis
    by (intro exI [of _ "OrderedSet (platforms opts)"] exI [of _ "[]"])
      (simp add: distinct_OrderedSet set_OrderedSet)
qed

lemma match_candidates_remaining:
  assumes "distinct ps"
  shows "\<exists>t' claimed.
           match_candidates cs ps is t =
             (t', Inr (filter (\<lambda>p. p \<notin> Some ` (\<Union>c\<in>set cs. set (supported_platforms c))) ps,
                       claimed))"
  using assms
proof (induction cs arbitrary: ps "is" t)
  case Nil
  show ?case by (simp add: ret_apply)
next
  case (Cons c cs)
  let ?res = "intersection (supported_platforms c) ps"
  show ?case
  proof (cases "?res = []")
    case True
    then have none: "\<And>r. r \<in> set (supported_platforms c) \<Longrightarrow> Some r \<notin> set ps"
      using set_intersection [of "supported_platforms c" ps] by auto
    have eq: "filter (\<lambda>p. p \<notin> Some ` (\<Union>c\<in>set (c # cs). set (supported_platforms c))) ps =
              filter (\<lambda>p. p \<notin> Some ` (\<Union>c\<in>set cs. set (supported_platforms c))) ps"
      by (rule filter_cong) (use none in auto)
    from Cons.IH [OF Cons.prems, of "is" t] True show ?thesis
      unfolding eq by (simp add: Let_def)
  next
    case False
    let ?ps1 = "filter (\<lambda>p. p \<notin> Some ` set ?res) ps"
    have claim: "claim_platforms c ?res ps t = (t @ map (Resolved c) ?res, Inr ?ps1)"
      by (rule claim_platforms_apply)
        (simp_all add: distinct_intersection set_intersection Cons.prems)
    have d1: "distinct ?ps1" using Cons.prems by simp
    have eq: "filter (\<lambda>p. p \<notin> Some ` (\<Union>c\<in>set (c # cs). set (supported_platforms c))) ps =
              filter (\<lambda>p. p \<notin> Some ` (\<Union>c\<in>set cs. set (supported_platforms c))) ?ps1"
      unfolding filter_filter by (rule filter_cong) (auto simp: set_intersection)
    from Cons.IH [OF d1, of "is @ [c]" "t @ map (Resolved c) ?res"] False claim show ?thesis
      unfolding eq by (simp add: Let_def bnd_apply)
  qed
qed

lemma claimed_by_None_iff:
  "claimed_by cs r = None \<longleftrightarrow> r \<notin> (\<Union>c\<in>set cs. set (supported_platforms c))"
  using claimed_by_Some_iff [of cs r] by (cases "claimed_by cs r") auto

lemma filter_unclaimed:
  "filter (\<lambda>p. p \<notin> Some ` (\<Union>c\<in>set cs. set (supported_platforms c))) ps =
   filter (\<lambda>p. case p of None \<Rightarrow> True | Some r \<Rightarrow> claimed_by cs r = None) ps"
  by (rule filter_cong) (auto simp: claimed_by_None_iff split: option.splits)

lemma read_preamble_trace: "fst (read_preamble w opts t) = t"
  by (simp add: read_preamble_def ret_apply raise_apply split: option.splits)

lemma resolve_distributions_args:
  "\<exists>ev r. is_resolver_call ev \<and> resolver_platforms ev = ps
          \<and> resolver_interpreters ev = interpreters
          \<and> (\<forall>t. resolve_distributions w reqs rc opts cache interpreters ps t = (t @ [ev], r))"
  by (cases "repository rc")
    (auto simp: resolve_distributions_def Let_def bnd_apply emit_apply die_apply ret_apply
      split: sum.splits)


lemma add_distributions_args:
  "\<exists>ev r. is_resolver_call ev \<and> resolver_platforms ev = ps
          \<and> resolver_interpreters ev = interpreters
          \<and> (\<forall>t. add_distributions w reqs rc opts cache path preamble interpreters ps t =
                   (t @ map AddFromRequirementsPex (requirements_pexes opts) @ [ev], r))"
proof -
  from resolve_distributions_args [of ps interpreters w reqs rc opts cache]
  obtain ev r where ev: "is_resolver_call ev" "resolver_platforms ev = ps"
      "resolver_interpreters ev = interpreters"
    and run: "\<And>t. resolve_distributions w reqs rc opts cache interpreters ps t = (t @ [ev], r)"
    by blast
  show ?thesis
  proof (cases r)
    case (Inl e)
    with ev run show ?thesis
      by (intro exI [of _ ev] exI [of _ "Inl e"])
        (simp add: add_distributions_def bnd_apply map_io_emit_apply)
  next
    case (Inr result)
    with ev run show ?thesis
      by (intro exI [of _ ev])
        (simp add: add_distributions_def bnd_apply map_io_emit_apply ret_apply)
  qed
qed

lemma build_pex_resolver_call:
  assumes sel: "select_interpreters w opts t = (t1, Inr (ps, interpreters))"
    and pre: "snd (read_preamble w opts t1) = Inr preamble"
  shows "\<exists>ev. is_resolver_call ev \<and> resolver_platforms ev = ps
              \<and> resolver_interpreters ev = interpreters
              \<and> fst (build_pex w reqs rc opts cache t) =
                  t1 @ SafeMkdtemp (mkdtemp w (length (filter is_mkdtemp t1)))
                     # map Warn (deprecated_option_warnings opts)
                     @ map AddFromRequirementsPex (requirements_pexes opts) @ [ev]"
proof -
  from pre read_preamble_trace [of w opts t1]
  have rp: "read_preamble w opts t1 = (t1, Inr preamble)"
    by (cases "read_preamble w opts t1") simp
  from add_distributions_args
    [of ps interpreters w reqs rc opts cache "mkdtemp w (length (filter is_mkdtemp t1))" preamble]
  obtain ev r where ev: "is_resolver_call ev" "resolver_platforms ev = ps"
      "resolver_interpreters ev = interpreters"
    and run: "\<And>t. add_distributions w reqs rc opts cache
                 (mkdtemp w (length (filter is_mkdtemp t1))) preamble interpreters ps t =
               (t @ map AddFromRequirementsPex (requirements_pexes opts) @ [ev], r)"
    by blast
  from sel rp run have "fst (build_pex w reqs rc opts cache t) =
      t1 @ SafeMkdtemp (mkdtemp w (length (filter is_mkdtemp t1)))
         # map Warn (deprecated_option_warnings opts)
         @ map AddFromRequirementsPex (requirements_pexes opts) @ [ev]"
    by (cases r) (simp_all add: build_pex_apply populate_builder_apply finish_builder_apply)
  with ev show ?thesis by blast
qed

lemma resolve_local_platforms_step_exact:
  fixes w :: world and opts :: options and path "is" t
  defines "run \<equiv> resolve_local_platforms_step w opts path is t"
    and "cands \<equiv> ordered_set_add (OrderedSet (reachable w path)) (get_interpreter w)"
  shows "\<exists>ps' claimers.
           run = (fst run, Inr (ps', is @ claimers))
         \<and> ps' = filter (\<lambda>p. \<not> resolve_local_platforms opts
                             \<or> (case p of None \<Rightarrow> True | Some r \<Rightarrow> claimed_by cands r = None))
                   (OrderedSet (platforms opts))
         \<and> (\<forall>c r. Resolved c r \<in> set (drop (length t) (fst run)) \<longleftrightarrow>
               resolve_local_platforms opts \<and> Some r \<in> set (platforms opts)
               \<and> claimed_by cands r = Some c)
         \<and> set claimers = {c. \<exists>r. Resolved c r \<in> set (drop (length t) (fst run))}"
proof (cases "platforms opts \<noteq> [] \<and> resolve_local_platforms opts")
  case True
  let ?t = "t @ [IterCompatibleInterpreters path [], GetInterpreter]"
  let ?ps = "OrderedSet (platforms opts)"
  from match_candidates_props [OF distinct_OrderedSet, of cands "platforms opts" "is" ?t]
  obtain es ps' claimers where
    m: "match_candidates cands ?ps is ?t = (?t @ es, Inr (ps', is @ claimers))"
    and e: "\<forall>c r. Resolved c r \<in> set es \<longleftrightarrow> Some r \<in> set ?ps \<and> claimed_by cands r = Some c"
    and cl: "set claimers = {c. \<exists>r. Resolved c r \<in> set es}"
    by blast
  from match_candidates_remaining [OF distinct_OrderedSet, of cands "platforms opts" "is" ?t] m
  have "ps' = filter (\<lambda>p. p \<notin> Some ` (\<Union>c\<in>set cands. set (supported_platforms c))) ?ps"
    by auto
  then have ps': "ps' = filter (\<lambda>p. case p of None \<Rightarrow> True
                                    | Some r \<Rightarrow> claimed_by cands r = None) ?ps"
    by (simp only: filter_unclaimed)
  from True m have run: "run = (?t @ es, Inr (ps', is @ claimers))"
    by (simp add: run_def resolve_local_platforms_step_def bnd_apply
        candidate_interpreters_apply cands_def)
  then have new: "drop (length t) (fst run) =
      [IterCompatibleInterpreters path [], GetInterpreter] @ es"
    by simp
  have ev: "Resolved c r \<in> set (drop (length t) (fst run)) \<longleftrightarrow> Resolved c r \<in> set es" for c r
    by (simp add: new)
  from True run ps' e cl show ?thesis
    by (intro exI [of _ ps'] exI [of _ claimers]) (simp add: ev set_OrderedSet)
next
  case False
  then have run: "run = (t, Inr (OrderedSet (platforms opts), is))"
    by (auto simp: run_def resolve_local_platforms_step_def ret_apply)
  from False have "filter (\<lambda>p. \<not> resolve_local_platforms opts
                             \<or> (case p of None \<Rightarrow> True | Some r \<Rightarrow> claimed_by cands r = None))
                   (OrderedSet (platforms opts)) = OrderedSet (platforms opts)"
    by (cases "resolve_local_platforms opts") (simp_all add: OrderedSet_def)
  with run False show ?thesis
    by (intro exI [of _ "OrderedSet (platforms opts)"] exI [of _ "[]"]) auto
qed

text \<open>
  C5. The matching step (lines 695-723) never fails: it returns the platforms left for
  binary-only resolution and the interpreters, those it was given followed by the ones that
  claimed a platform. With \<^verbatim>\<open>--resolve-local-platforms\<close> a declared tag is claimed,
  and logged as resolved, exactly when some candidate supports it, and then by the first
  such candidate in discovery order, which is among the interpreters added; the platforms
  returned are the declared ones that no candidate supports, in their order. So every
  declared tag is in exactly one of two places, claimed or returned. When the flag is false
  nothing is looked for: no event happens and all declared tags are returned. When the
  preamble can be read, \<^verbatim>\<open>build_pex\<close> then calls the resolver once, and the platforms
  and interpreters it is given are the ones returned by the matching step.
\<close>

theorem platform_matching:
  fixes w :: world and opts :: options and reqs rc cache t found t0 preamble
  defines "path \<equiv> pex_python_path_of w opts"
    and "cands \<equiv> ordered_set_add (OrderedSet (reachable w (pex_python_path_of w opts)))
                   (get_interpreter w)"
    and "given \<equiv> (case found of None \<Rightarrow> [] | Some xs \<Rightarrow> xs)"
    and "run \<equiv> resolve_local_platforms_step w opts (pex_python_path_of w opts)
                  (case found of None \<Rightarrow> [] | Some xs \<Rightarrow> xs) t0"
    and "new \<equiv> drop (length t0)
                  (fst (resolve_local_platforms_step w opts (pex_python_path_of w opts)
                          (case found of None \<Rightarrow> [] | Some xs \<Rightarrow> xs) t0))"
  shows "\<exists>ps' claimers.
           run = (fst run, Inr (ps', given @ claimers))
         \<and> ps' = filter (\<lambda>p. \<not> resolve_local_platforms opts
                             \<or> (case p of None \<Rightarrow> True | Some r \<Rightarrow> claimed_by cands r = None))
                   (OrderedSet (platforms opts))
         \<and> distinct ps' \<and> set ps' \<subseteq> set (platforms opts)
         \<and> (\<forall>p\<in>set (platforms opts).
               (p \<in> set ps') \<noteq> (\<exists>c r. p = Some r \<and> Resolved c r \<in> set new))
         \<and> (\<forall>c r. Resolved c r \<in> set new \<longleftrightarrow>
               resolve_local_platforms opts \<and> Some r \<in> set (platforms opts)
               \<and> claimed_by cands r = Some c)
         \<and> set claimers = {c. \<exists>r. Resolved c r \<in> set new}
         \<and> (\<not> resolve_local_platforms opts \<longrightarrow>
               run = (t0, Inr (OrderedSet (platforms opts), given))
               \<and> set (OrderedSet (platforms opts)) = set (platforms opts))
         \<and> (resolve_interpreters w opts path t = (t0, Inr found)
             \<and> snd (read_preamble w opts (fst run)) = Inr preamble \<longrightarrow>
               (\<exists>ev. is_resolver_call ev \<and> resolver_platforms ev = ps'
                     \<and> resolver_interpreters ev = given @ claimers
                     \<and> fst (build_pex w reqs rc opts cache t) =
                         fst run @ SafeMkdtemp (mkdtemp w (length (filter is_mkdtemp (fst run))))
                           # map Warn (deprecated_option_warnings opts)
                           @ map AddFromRequirementsPex (requirements_pexes opts) @ [ev]))"
proof -
  from resolve_local_platforms_step_exact [of w opts path given t0]
  obtain ps' claimers where
    r: "run = (fst run, Inr (ps', given @ claimers))"
    and x: "ps' = filter (\<lambda>p. \<not> resolve_local_platforms opts
                             \<or> (case p of None \<Rightarrow> True | Some r \<Rightarrow> claimed_by cands r = None))
                   (OrderedSet (platforms opts))"
    and e: "\<forall>c r. Resolved c r \<in> set new \<longleftrightarrow>
               resolve_local_platforms opts \<and> Some r \<in> set (platforms opts)
               \<and> claimed_by cands r = Some c"
    and cl: "set claimers = {c. \<exists>r. Resolved c r \<in> set new}"
    unfolding run_def new_def cands_def path_def given_def by blast
  from resolve_local_platforms_step_props [of w opts path given t0]
  obtain ps2 claimers2 where
    r2: "snd run = Inr (ps2, given @ claimers2)"
    and d: "distinct ps2" and sub: "set ps2 \<subseteq> set (platforms opts)"
    and one: "\<forall>p\<in>set (platforms opts).
               (p \<in> set ps2) \<noteq> (\<exists>c r. p = Some r \<and> Resolved c r \<in> set new)"
    and off: "\<not> resolve_local_platforms opts \<longrightarrow>
               run = (t0, Inr (OrderedSet (platforms opts), given))
               \<and> set (OrderedSet (platforms opts)) = set (platforms opts)"
    unfolding run_def new_def cands_def path_def given_def by blast
  from r r2 have same: "ps2 = ps'"
    by (metis Pair_inject sum.inject(2) snd_conv)
  have link: "\<exists>ev. is_resolver_call ev \<and> resolver_platforms ev = ps'
                  \<and> resolver_interpreters ev = given @ claimers
                  \<and> fst (build_pex w reqs rc opts cache t) =
                      fst run @ SafeMkdtemp (mkdtemp w (length (filter is_mkdtemp (fst run))))
                        # map Warn (deprecated_option_warnings opts)
                        @ map AddFromRequirementsPex (requirements_pexes opts) @ [ev]"
    if ri: "resolve_interpreters w opts path t = (t0, Inr found)"
      and pre: "snd (read_preamble w opts (fst run)) = Inr preamble"
  proof -
    from ri r have "select_interpreters w opts t = (fst run, Inr (ps', given @ claimers))"
      unfolding select_interpreters_def Let_def run_def path_def given_def
      by (simp add: bnd_apply)
    from build_pex_resolver_call [OF this pre] show ?thesis .
  qed
  from r x d sub one e cl off link show ?thesis
    unfolding same by (intro exI [of _ ps'] exI [of _ claimers]) blast
qed


theorem platform_matching_witness:
  "resolve_interpreters two_interpreter_world two_platform_options
     (pex_python_path_of two_interpreter_world two_platform_options) [] = ([], Inr None)
   \<and> resolve_local_platforms_step two_interpreter_world two_platform_options None [] [] =
       ([IterCompatibleInterpreters None [], GetInterpreter,
         Resolved example_interpreter ''linux_x86_64-cp-39-cp39'',
         Resolved pypy_interpreter ''linux_x86_64-pp-39-pypy39_pp73''],
        Inr ([Some ''macosx_10_9_x86_64-cp-39-cp39'', None],
             [example_interpreter, pypy_interpreter]))
   \<and> claimed_by [example_interpreter, pypy_interpreter] ''linux_x86_64-cp-39-cp39'' =
       Some example_interpreter
   \<and> claimed_by [example_interpreter, pypy_interpreter] ''linux_x86_64-pp-39-pypy39_pp73'' =
       Some pypy_interpreter
   \<and> map resolver_platforms
        (filter is_resolver_call
           (fst (build_pex two_interpreter_world [] example_configuration two_platform_options
                   None []))) =
       [[Some ''macosx_10_9_x86_64-cp-39-cp39'', None]]
   \<and> map resolver_interpreters
        (filter is_resolver_call
           (fst (build_pex two_interpreter_world [] example_configuration two_platform_options
                   None []))) =
       [[example_interpreter, pypy_interpreter]]
   \<and> map resolver_platforms
        (filter is_resolver_call
           (fst (build_pex two_interpreter_world [] example_configuration
                   (two_platform_options \<lparr> resolve_local_platforms := False \<rparr>) None []))) =
       [[Some ''linux_x86_64-cp-39-cp39'', Some ''linux_x86_64-pp-39-pypy39_pp73'',
         Some ''macosx_10_9_x86_64-cp-39-cp39'', None]]"
proof -
  let ?w = two_interpreter_world
  let ?o = two_platform_options
  let ?f = "two_platform_options \<lparr> resolve_local_platforms := False \<rparr>"
  let ?T = "[IterCompatibleInterpreters None [], GetInterpreter,
             Resolved example_interpreter ''linux_x86_64-cp-39-cp39'',
             Resolved pypy_interpreter ''linux_x86_64-pp-39-pypy39_pp73'']"
  note opt = two_platform_options_def default_options_def
  note wd = two_interpreter_world_def example_world_def
  have p: "pex_python_path_of ?w ?o = None" "pex_python_path_of ?w ?f = None"
    by (simp_all add: pex_python_path_of_def truthy_def opt wd)
  have ri: "resolve_interpreters ?w ?o None [] = ([], Inr None)"
    "resolve_interpreters ?w ?f None [] = ([], Inr None)"
    by (simp_all add: resolve_interpreters_def ret_apply opt)
  have ne: "example_interpreter \<noteq> pypy_interpreter" "pypy_interpreter \<noteq> example_interpreter"
    by (simp_all add: example_interpreter_def pypy_interpreter_def)
  have cands: "ordered_set_add (OrderedSet (reachable ?w None)) (get_interpreter ?w) =
      [example_interpreter, pypy_interpreter]"
    by (simp add: OrderedSet_def ordered_set_add_def wd ne)
  have pl: "platforms ?o = [Some ''linux_x86_64-cp-39-cp39'',
      Some ''linux_x86_64-pp-39-pypy39_pp73'', Some ''macosx_10_9_x86_64-cp-39-cp39'', None]"
    "resolve_local_platforms ?o" "platforms ?f = platforms ?o" "\<not> resolve_local_platforms ?f"
    by (simp_all add: opt)
  have os: "OrderedSet (platforms ?o) = platforms ?o"
    by (simp add: pl(1) OrderedSet_def ordered_set_add_def)
  have on: "resolve_local_platforms_step ?w ?o None [] [] =
      (?T, Inr ([Some ''macosx_10_9_x86_64-cp-39-cp39'', None],
                [example_interpreter, pypy_interpreter]))"
    unfolding resolve_local_platforms_step_def candidate_interpreters_apply bnd_apply
    by (simp add: pl(2) os cands)
      (simp add: pl(1) intersection_def ordered_set_remove_def bnd_apply ret_apply emit_apply
        example_interpreter_def pypy_interpreter_def Let_def)
  have off: "resolve_local_platforms_step ?w ?f None [] [] = ([], Inr (platforms ?o, []))"
    by (simp add: resolve_local_platforms_step_def pl(3,4) os ret_apply)
  have cb: "claimed_by [example_interpreter, pypy_interpreter] ''linux_x86_64-cp-39-cp39'' =
      Some example_interpreter"
    "claimed_by [example_interpreter, pypy_interpreter] ''linux_x86_64-pp-39-pypy39_pp73'' =
      Some pypy_interpreter"
    by (simp_all add: claimed_by_def example_interpreter_def pypy_interpreter_def)
  have pre: "snd (read_preamble ?w ?o t) = Inr None" "snd (read_preamble ?w ?f t) = Inr None"
    for t
    by (simp_all add: read_preamble_def ret_apply opt)
  have rq: "requirements_pexes ?o = []" "requirements_pexes ?f = []"
    by (simp_all add: opt)
  have nw: "filter is_resolver_call (map Warn xs) = []" for xs
    by (induction xs) simp_all
  from platform_matching [of ?w ?o None "[]" "[]" None "[]" example_configuration None]
    ri(1) pre(1) on
  obtain ev where ev: "is_resolver_call ev"
      "resolver_platforms ev = [Some ''macosx_10_9_x86_64-cp-39-cp39'', None]"
      "resolver_interpreters ev = [example_interpreter, pypy_interpreter]"
    and tr: "fst (build_pex ?w [] example_configuration ?o None []) =
      ?T @ SafeMkdtemp (mkdtemp ?w (length (filter is_mkdtemp ?T)))
         # map Warn (deprecated_option_warnings ?o) @ [ev]"
    unfolding p rq by auto
  from platform_matching [of ?w ?f None "[]" "[]" None "[]" example_configuration None]
    ri(2) pre(2) off
  obtain ev' where ev': "is_resolver_call ev'" "resolver_platforms ev' = platforms ?o"
    and tr': "fst (build_pex ?w [] example_configuration ?f None []) =
      SafeMkdtemp (mkdtemp ?w (length (filter is_mkdtemp [])))
         # map Warn (deprecated_option_warnings ?f) @ [ev']"
    unfolding p rq by auto
  from ev tr have b1: "filter is_resolver_call
      (fst (build_pex ?w [] example_configuration ?o None [])) = [ev]"
    by (simp add: nw)
  from ev' tr' have b2: "filter is_resolver_call
      (fst (build_pex ?w [] example_configuration ?f None [])) = [ev']"
    by (simp add: nw)
  from ri(1) on cb ev ev' show ?thesis
    unfolding p b1 b2 by (simp add: pl(1))
qed

subsection \<open>The primary interpreter\<close>

lemma preferred_trans: "preferred x i \<Longrightarrow> preferred i b \<Longrightarrow> preferred x b"
  by (auto simp: preferred_def version_lt_def)

lemma not_preferred_trans: "\<not> preferred x i \<Longrightarrow> \<not> preferred i b \<Longrightarrow> \<not> preferred x b"
  by (auto simp: preferred_def version_lt_def prod_eq_iff)

lemma latest_release_props:
  "latest_release_of_min_compatible_version i rest \<in> set (i # rest)
   \<and> (\<forall>j\<in>set (i # rest). \<not> preferred j (latest_release_of_min_compatible_version i rest))"
proof (induction rest arbitrary: i)
  case Nil
  show ?case
    by (simp add: latest_release_of_min_compatible_version_def preferred_def version_lt_def)
next
  case (Cons x xs)
  let ?i = "if preferred x i then x else i"
  have step: "latest_release_of_min_compatible_version i (x # xs) =
      latest_release_of_min_compatible_version ?i xs"
    by (simp add: latest_release_of_min_compatible_version_def)
  from Cons.IH [of ?i] have mem: "latest_release_of_min_compatible_version ?i xs \<in> set (?i # xs)"
    and best: "\<forall>j\<in>set (?i # xs). \<not> preferred j (latest_release_of_min_compatible_version ?i xs)"
    by blast+
  let ?b = "latest_release_of_min_compatible_version ?i xs"
  from best have bi: "\<not> preferred ?i ?b" by simp
  have "\<not> preferred i ?b \<and> \<not> preferred x ?b"
  proof (cases "preferred x i")
    case True
    with bi preferred_trans [of x i ?b] show ?thesis by auto
  next
    case False
    with bi not_preferred_trans [of x i ?b] show ?thesis by auto
  qed
  with mem best show ?case unfolding step by auto
qed

lemma primary_interpreter_props:
  "(primary_interpreter interpreters = None \<longleftrightarrow> interpreters = [])
   \<and> (\<forall>i. primary_interpreter interpreters = Some i \<longrightarrow>
          i \<in> set interpreters
          \<and> (\<forall>j\<in>set interpreters.
                \<not> version_lt (major_minor j) (major_minor i)
                \<and> (major_minor j = major_minor i \<longrightarrow> patch j \<le> patch i)))"
proof (cases interpreters)
  case Nil
  then show ?thesis by (simp add: primary_interpreter_def)
next
  case (Cons i rest)
  let ?b = "latest_release_of_min_compatible_version i rest"
  from latest_release_props [of i rest] Cons have mem: "?b \<in> set interpreters"
    and best: "\<And>j. j \<in> set interpreters \<Longrightarrow> \<not> preferred j ?b"
    by auto
  have prim: "primary_interpreter interpreters = Some ?b"
    by (simp add: primary_interpreter_def Cons)
  have "\<not> version_lt (major_minor j) (major_minor ?b)
        \<and> (major_minor j = major_minor ?b \<longrightarrow> patch j \<le> patch ?b)"
    if "j \<in> set interpreters" for j
    using best [OF that] unfolding preferred_def by (simp add: not_less)
  with mem prim Cons show ?thesis by simp
qed

lemma map_io_length: "map_io f xs t = (t', Inr ys) \<Longrightarrow> length ys = length xs"
proof (induction xs arbitrary: t ys)
  case Nil
  then show ?case by (simp add: ret_apply)
next
  case (Cons x xs)
  then show ?case
    by (auto simp: bnd_apply ret_apply split: prod.splits sum.splits)
qed

lemma resolve_interpreters_empty:
  assumes "resolve_interpreters w opts p t = (t', Inr found)"
  shows "(case found of None \<Rightarrow> [] | Some is \<Rightarrow> is) = [] \<longleftrightarrow>
           python opts = [] \<and> interpreter_constraint opts = []"
proof (cases "python opts = []")
  case False
  with assms obtain t1 "is" where "map_io (to_python_interpreter w) (python opts) t = (t1, Inr is)"
    and "found = Some is"
    by (auto simp: resolve_interpreters_def bnd_apply ret_apply split: prod.splits sum.splits)
  with map_io_length [of "to_python_interpreter w" "python opts" t t1 "is"] False
  show ?thesis by auto
next
  case True
  show ?thesis
  proof (cases "interpreter_constraint opts = []")
    case True
    with \<open>python opts = []\<close> assms show ?thesis
      by (simp add: resolve_interpreters_def ret_apply)
  next
    case False
    with resolve_interpreters_constraints [OF \<open>python opts = []\<close> False, of w p t] assms
    show ?thesis
      by (auto simp: Let_def split: option.splits if_splits)
  qed
qed


lemma select_interpreters_empty:
  assumes "select_interpreters w opts t = (t1, Inr (ps, is))"
  shows "is = [] \<longleftrightarrow>
           python opts = [] \<and> interpreter_constraint opts = []
           \<and> (\<forall>c r. Resolved c r \<notin> set (drop (length t) t1))"
proof -
  let ?p = "pex_python_path_of w opts"
  let ?Q = "\<lambda>ev. \<forall>c r. ev \<noteq> Resolved c r"
  from assms obtain t0 found where
    ri: "resolve_interpreters w opts ?p t = (t0, Inr found)"
    and st: "resolve_local_platforms_step w opts ?p
               (case found of None \<Rightarrow> [] | Some is \<Rightarrow> is) t0 = (t1, Inr (ps, is))"
    unfolding select_interpreters_def Let_def by (rule bnd_Inr_elim)
  let ?is0 = "case found of None \<Rightarrow> [] | Some is \<Rightarrow> is"
  have "?Q ev" if "is_probe ev" for ev
    using that by (cases ev) simp_all
  then have "adds ?Q (resolve_interpreters w opts ?p)"
    by (intro adds_resolve_interpreters) simp_all
  from addsD [OF this, of t] ri obtain es0 where
    t0: "t0 = t @ es0" and q0: "list_all ?Q es0"
    by auto
  have "adds (\<lambda>ev. True) (resolve_local_platforms_step w opts ?p ?is0)"
    by (intro adds_resolve_local_platforms_step) simp_all
  from addsD [OF this, of t0] st obtain es1 where t1: "t1 = t0 @ es1"
    by auto
  let ?run = "resolve_local_platforms_step w opts ?p ?is0 t0"
  from resolve_local_platforms_step_props [of w opts ?p ?is0 t0]
  obtain ps' claimers where
    c1: "snd ?run = Inr (ps', ?is0 @ claimers)"
    and c5: "\<forall>c r. Resolved c r \<in> set (drop (length t0) (fst ?run)) \<longrightarrow>
               resolve_local_platforms opts \<and> Some r \<in> set (platforms opts)
               \<and> claimed_by (ordered_set_add (OrderedSet (reachable w ?p)) (get_interpreter w)) r
                   = Some c
               \<and> c \<in> set claimers"
    and c6: "\<forall>c\<in>set claimers. \<exists>r. Resolved c r \<in> set (drop (length t0) (fst ?run))"
    by blast
  from c1 st have res: "(ps, is) = (ps', ?is0 @ claimers)" by simp
  from st t1 have new: "drop (length t0) (fst ?run) = es1" by simp
  from c5 have a: "\<forall>c r. Resolved c r \<in> set es1 \<longrightarrow> c \<in> set claimers"
    unfolding new by blast
  from c6 have b: "\<forall>c\<in>set claimers. \<exists>r. Resolved c r \<in> set es1"
    unfolding new .
  have "claimers = [] \<longleftrightarrow> (\<forall>c r. Resolved c r \<notin> set es1)"
  proof
    assume "claimers = []"
    with a show "\<forall>c r. Resolved c r \<notin> set es1" by auto
  next
    assume none: "\<forall>c r. Resolved c r \<notin> set es1"
    show "claimers = []"
    proof (cases claimers)
      case Nil
      then show ?thesis .
    next
      case (Cons c cs)
      with b none show ?thesis by auto
    qed
  qed
  moreover from q0 have "\<forall>c r. Resolved c r \<notin> set es0"
    by (auto simp: list_all_iff)
  moreover have "drop (length t) t1 = es0 @ es1"
    by (simp add: t0 t1)
  moreover from res have "is = ?is0 @ claimers" by simp
  ultimately show ?thesis
    using resolve_interpreters_empty [OF ri] by auto
qed

lemma add_distributions_interpreter:
  assumes "add_distributions w reqs rc opts cache path preamble interpreters ps t = (t', Inr b)"
  shows "builder_interpreter b = primary_interpreter interpreters"
  using assms
  by (auto simp: add_distributions_def bnd_apply map_io_emit_apply ret_apply
      split: prod.splits sum.splits)

text \<open>
  C6. Whenever \<^verbatim>\<open>build_pex\<close> returns a builder, its interpreter is the primary
  interpreter of the participating interpreters that the selection produced. It is absent
  exactly when that list is empty, and the list is empty exactly when no \<^verbatim>\<open>--python\<close>
  and no interpreter constraint was given and no local interpreter claimed a platform. When
  present, it is one of the participating interpreters, none of them has a lower
  major.minor version, and none of those with the same version has a later release.
\<close>

theorem primary_interpreter_selection:
  assumes "build_pex w reqs rc opts cache t = (t', Inr b)"
  shows "\<exists>t1 ps is.
           select_interpreters w opts t = (t1, Inr (ps, is))
         \<and> builder_interpreter b = primary_interpreter is
         \<and> (builder_interpreter b = None \<longleftrightarrow> is = [])
         \<and> (is = [] \<longleftrightarrow>
              python opts = [] \<and> interpreter_constraint opts = []
              \<and> (\<forall>c r. Resolved c r \<notin> set (drop (length t) t1)))
         \<and> (\<forall>i. builder_interpreter b = Some i \<longrightarrow>
               i \<in> set is
               \<and> (\<forall>j\<in>set is.
                     \<not> version_lt (major_minor j) (major_minor i)
                     \<and> (major_minor j = major_minor i \<longrightarrow> patch j \<le> patch i)))"
proof -
  obtain t1 r1 where s1: "select_interpreters w opts t = (t1, r1)"
    by (cases "select_interpreters w opts t")
  with assms obtain ps "is" where r1: "r1 = Inr (ps, is)"
    by (cases r1) (auto simp: build_pex_apply populate_builder_apply)
  obtain t2 r2 where s2: "read_preamble w opts t1 = (t2, r2)"
    by (cases "read_preamble w opts t1")
  with assms s1 r1 obtain preamble where r2: "r2 = Inr preamble"
    by (cases r2) (auto simp: build_pex_apply populate_builder_apply)
  from assms s1 r1 s2 r2 obtain t3 b0 where
    ad: "add_distributions w reqs rc opts cache (mkdtemp w (length (filter is_mkdtemp t2)))
           preamble is ps
           (t2 @ SafeMkdtemp (mkdtemp w (length (filter is_mkdtemp t2)))
               # map Warn (deprecated_option_warnings opts)) = (t3, Inr b0)"
    and fb: "finish_builder opts b0 t3 = (t', Inr b)"
    by (auto simp: build_pex_apply populate_builder_apply split: prod.splits sum.splits)
  from fb have "builder_interpreter b = builder_interpreter b0"
    by (auto simp: finish_builder_apply split: if_splits)
  with add_distributions_interpreter [OF ad]
  have prim: "builder_interpreter b = primary_interpreter is" by simp
  from s1 r1 have sel: "select_interpreters w opts t = (t1, Inr (ps, is))" by simp
  from sel prim select_interpreters_empty [OF sel] primary_interpreter_props [of "is"]
  show ?thesis
    by (intro exI [of _ t1] exI [of _ ps] exI [of _ "is"]) simp
qed

theorem primary_interpreter_selection_witness:
  "(\<exists>t' b. build_pex example_world [] example_configuration python_options None [] = (t', Inr b)
           \<and> builder_interpreter b = Some example_interpreter)
   \<and> (\<exists>t' b. build_pex example_world [] example_configuration default_options None [] =
                (t', Inr b)
           \<and> builder_interpreter b = None)"
proof -
  let ?X = "build_pex example_world [] example_configuration python_options None []"
  let ?Y = "build_pex example_world [] example_configuration default_options None []"
  note eval = build_pex_apply finish_builder_apply populate_builder_apply
    add_distributions_def resolve_distributions_def select_interpreters_def
    resolve_interpreters_def resolve_local_platforms_step_def to_python_interpreter_def
    read_preamble_def OrderedSet_def bnd_apply ret_apply emit_apply
    primary_interpreter_def latest_release_of_min_compatible_version_def
    python_options_def default_options_def example_world_def example_configuration_def
    truthy_def
  have x: "?X = (fst ?X, Inr (projr (snd ?X)))"
    by (simp add: eval)
  have y: "?Y = (fst ?Y, Inr (projr (snd ?Y)))"
    by (simp add: eval)
  have xi: "builder_interpreter (projr (snd ?X)) = Some example_interpreter"
    by (simp add: eval)
  have yi: "builder_interpreter (projr (snd ?Y)) = None"
    by (simp add: eval)
  from primary_interpreter_selection [OF x] primary_interpreter_selection [OF y] x y xi yi
  show ?thesis by blast
qed

subsection \<open>Seeding\<close>

lemma maybe_install_spec_apply:
  "maybe_install_spec pex root h t =
     (if Install root h \<in> set t then t else t @ [Install root h],
      Inr (Some (path_join root h)))"
  by (simp add: maybe_install_spec_def)

lemma suffix_path_join: "suffix b (path_join a b)"
  by (simp add: path_join_def suffix_def)

lemma prefix_path_join: "b = [] \<or> hd b \<noteq> CHR ''/'' \<Longrightarrow> prefix a (path_join a b)"
  by (auto simp: path_join_def)

lemma seed_cache_apply:
  "seed_cache w opts path pex verbose t =
     (if venv opts \<noteq> None
      then (case ensure_venv w pex t of
              (t', Inl e) \<Rightarrow> (t', Inl e)
            | (t', Inr venv_pex) \<Rightarrow>
                (t', Inr (if verbose then Json (create_verbose_info pex venv_pex)
                          else Path venv_pex)))
      else (case pex_info_pex_hash pex of
              None \<Rightarrow>
                (t, Inl (AssertionError
                          (''There was no pex_hash stored in '' @ PexInfo_PATH w @ '' for '' @
                           path @ ''.'')))
            | Some h \<Rightarrow>
                (case maybe_install w path (pex_info_pex_root pex) h t of
                   (t', Inl e) \<Rightarrow> (t', Inl e)
                 | (t', Inr installed) \<Rightarrow>
                     (t', Inr (if verbose
                               then Json (create_verbose_info pex
                                      (path_join (py_or installed (abspath w path))
                                         ''__main__.py''))
                               else Path (path_join (py_or installed (abspath w path))
                                            ''__main__.py''))))))"
  by (simp add: seed_cache_def bnd_apply ret_apply raise_apply Let_def
      split: option.splits prod.splits sum.splits)


lemma run_build_apply:
  assumes "pex_name opts = Some name"
  shows "run_build w opts cmdline root rc t =
           (case build_pex w (requirements opts) rc opts (Some root) t of
              (t1, Inl e) \<Rightarrow> (t1, Inl e)
            | (t1, Inr b) \<Rightarrow>
                if seed opts = NONE
                then (t1 @ [Freeze (compile opts), Build name], Inr ())
                else (case seed_cache w opts name (load_pex w b) (seed opts = VERBOSE)
                             (t1 @ [Freeze (compile opts), Build name]) of
                        (t2, Inl e) \<Rightarrow> (t2, Inl e)
                      | (t2, Inr info) \<Rightarrow> (t2 @ [Print info], Inr ())))"
  using assms
  by (simp add: run_build_def bnd_apply emit_apply ret_apply Let_def
      split: prod.splits sum.splits)

lemma seed_cache_spec_path:
  assumes "maybe_install w = maybe_install_spec" and "venv opts = None"
    and "pex_info_pex_hash pex = Some h" and "h \<noteq> []" and "hd h \<noteq> CHR ''/''"
  shows "snd (seed_cache w opts path pex False t) =
           Inr (Path (path_join (path_join (pex_info_pex_root pex) h) ''__main__.py''))
         \<and> prefix (pex_info_pex_root pex)
              (path_join (path_join (pex_info_pex_root pex) h) ''__main__.py'')"
proof -
  from assms(4,5) have ne: "path_join (pex_info_pex_root pex) h \<noteq> []"
    by (simp add: path_join_def)
  from assms(4,5) have "prefix (pex_info_pex_root pex) (path_join (pex_info_pex_root pex) h)"
    by (intro prefix_path_join) simp
  moreover have "prefix (path_join (pex_info_pex_root pex) h)
      (path_join (path_join (pex_info_pex_root pex) h) ''__main__.py'')"
    by (intro prefix_path_join) simp
  ultimately have "prefix (pex_info_pex_root pex)
      (path_join (path_join (pex_info_pex_root pex) h) ''__main__.py'')"
    by (rule prefix_order.trans)
  with assms(1-3) ne show ?thesis
    by (simp add: seed_cache_apply maybe_install_spec_apply py_or_def)
qed

text \<open>
  C7. With the cache of the spec (an entry per cache root and content hash, installed at
  most once), seeding an artifact that has a content hash, not in venv mode, returns a
  result, and seeding it again returns the same result without any effect: the second call
  only looks the entry up. Over both calls at most one installation is made, and the entry
  of the hash is installed afterwards.
\<close>

theorem seed_cache_twice:
  fixes w :: world and opts :: options and path pex verbose t
  defines "first \<equiv> seed_cache w opts path pex verbose t"
  defines "second \<equiv> seed_cache w opts path pex verbose (fst first)"
  assumes "maybe_install w = maybe_install_spec" and "venv opts = None"
    and "pex_info_pex_hash pex = Some h"
  shows "(\<exists>info. snd first = Inr info) \<and> snd second = snd first \<and> fst second = fst first
         \<and> Install (pex_info_pex_root pex) h \<in> set (fst first)
         \<and> length (filter is_install (fst second)) \<le> Suc (length (filter is_install t))"
  using assms(3-5) unfolding first_def second_def
  by (simp add: seed_cache_def bnd_apply maybe_install_spec_apply ret_apply Let_def)

theorem seed_cache_twice_witness:
  "maybe_install seeding_world = maybe_install_spec \<and> venv default_options = None
   \<and> pex_info_pex_hash example_pex = Some ''0a1b2c''
   \<and> seed_cache seeding_world default_options ''/out/app.pex'' example_pex False [] =
       ([Install ''/home/user/.pex'' ''0a1b2c''],
        Inr (Path ''/home/user/.pex/0a1b2c/__main__.py''))
   \<and> seed_cache seeding_world default_options ''/out/app.pex'' example_pex False
        [Install ''/home/user/.pex'' ''0a1b2c''] =
       ([Install ''/home/user/.pex'' ''0a1b2c''],
        Inr (Path ''/home/user/.pex/0a1b2c/__main__.py''))"
  using seed_cache_twice [where w = seeding_world and opts = default_options
      and path = "''/out/app.pex''" and pex = example_pex and verbose = False and t = "[]"
      and h = "''0a1b2c''"]
  by (simp add: seed_cache_apply maybe_install_spec_apply py_or_def path_join_def
      seeding_world_def example_world_def example_pex_def default_options_def)

subsection \<open>What seed_cache returns\<close>

text \<open>
  C8, as the code has it. Not in venv mode and with a content hash, \<^verbatim>\<open>seed_cache\<close>
  returns the path of \<^verbatim>\<open>__main__.py\<close> inside the directory that \<^verbatim>\<open>maybe_install\<close>
  returns or, when that returns nothing, inside the absolute path of the artifact itself;
  with the cache of the spec this is under the cache root. In venv mode it returns the path
  that \<^verbatim>\<open>ensure_venv\<close> gives, as it is. With \<open>verbose\<close> the same path is the
  \<^verbatim>\<open>pex\<close> entry of a record that also holds \<^verbatim>\<open>pex_root\<close> and \<^verbatim>\<open>python\<close>. When an
  artifact is written, \<^verbatim>\<open>main\<close> calls \<^verbatim>\<open>seed_cache\<close> after the build, with
  \<open>verbose\<close> exactly for the seed mode \<^verbatim>\<open>VERBOSE\<close>, and prints what it returns; with the
  seed mode \<^verbatim>\<open>NONE\<close> it returns right after the build.
\<close>

theorem seed_cache_output:
  "seed_cache w opts path pex verbose t =
     (if venv opts \<noteq> None
      then (case ensure_venv w pex t of
              (t', Inl e) \<Rightarrow> (t', Inl e)
            | (t', Inr venv_pex) \<Rightarrow>
                (t', Inr (if verbose then Json (create_verbose_info pex venv_pex)
                          else Path venv_pex)))
      else (case pex_info_pex_hash pex of
              None \<Rightarrow>
                (t, Inl (AssertionError
                          (''There was no pex_hash stored in '' @ PexInfo_PATH w @ '' for '' @
                           path @ ''.'')))
            | Some h \<Rightarrow>
                (case maybe_install w path (pex_info_pex_root pex) h t of
                   (t', Inl e) \<Rightarrow> (t', Inl e)
                 | (t', Inr installed) \<Rightarrow>
                     (t', Inr (if verbose
                               then Json (create_verbose_info pex
                                      (path_join (py_or installed (abspath w path))
                                         ''__main__.py''))
                               else Path (path_join (py_or installed (abspath w path))
                                            ''__main__.py''))))))
   \<and> create_verbose_info pex p =
       [(''pex_root'', pex_info_pex_root pex), (''python'', pex_interpreter_binary pex),
        (''pex'', p)]
   \<and> suffix ''__main__.py'' (path_join dir ''__main__.py'')
   \<and> prefix dir (path_join dir ''__main__.py'')
   \<and> (maybe_install w = maybe_install_spec \<and> venv opts = None
        \<and> pex_info_pex_hash pex = Some h \<and> h \<noteq> [] \<and> hd h \<noteq> CHR ''/'' \<longrightarrow>
        snd (seed_cache w opts path pex False t) =
          Inr (Path (path_join (path_join (pex_info_pex_root pex) h) ''__main__.py''))
        \<and> prefix (pex_info_pex_root pex)
             (path_join (path_join (pex_info_pex_root pex) h) ''__main__.py''))
   \<and> (pex_name opts = Some name \<longrightarrow>
        run_build w opts cmdline root rc t =
          (case build_pex w (requirements opts) rc opts (Some root) t of
             (t1, Inl e) \<Rightarrow> (t1, Inl e)
           | (t1, Inr b) \<Rightarrow>
               if seed opts = NONE
               then (t1 @ [Freeze (compile opts), Build name], Inr ())
               else (case seed_cache w opts name (load_pex w b) (seed opts = VERBOSE)
                            (t1 @ [Freeze (compile opts), Build name]) of
                       (t2, Inl e) \<Rightarrow> (t2, Inl e)
                     | (t2, Inr info) \<Rightarrow> (t2 @ [Print info], Inr ()))))"
  using seed_cache_apply [of w opts path pex verbose t]
    seed_cache_spec_path [of w opts pex h path t]
    run_build_apply [of opts name w cmdline root rc t]
    suffix_path_join [of "''__main__.py''" dir]
    prefix_path_join [of "''__main__.py''" dir]
  by (simp add: create_verbose_info_def)

theorem seed_cache_output_witness:
  "maybe_install seeding_world = maybe_install_spec \<and> venv seed_options = None
   \<and> pex_info_pex_hash example_pex = Some ''0a1b2c''
   \<and> pex_name seed_options = Some ''/out/app.pex''
   \<and> snd (seed_cache seeding_world seed_options ''/out/app.pex'' example_pex False []) =
       Inr (Path ''/home/user/.pex/0a1b2c/__main__.py'')
   \<and> prefix ''/home/user/.pex'' ''/home/user/.pex/0a1b2c/__main__.py''
   \<and> snd (run_build seeding_world seed_options [] ''/home/user/.pex'' example_configuration [])
       = Inr ()
   \<and> filter (\<lambda>ev. \<not> is_resolver_call ev)
        (fst (run_build seeding_world seed_options [] ''/home/user/.pex'' example_configuration
                []))
       = [SafeMkdtemp ''/tmp/pex'', Freeze False, Build ''/out/app.pex'',
          Install ''/home/user/.pex'' ''0a1b2c'',
          Print (Path ''/home/user/.pex/0a1b2c/__main__.py'')]"
  using seed_cache_output [where w = seeding_world and opts = seed_options
      and path = "''/out/app.pex''" and pex = example_pex and t = "[]" and h = "''0a1b2c''"
      and name = "''/out/app.pex''" and cmdline = "[]" and root = "''/home/user/.pex''"
      and rc = example_configuration]
  by (simp add: build_pex_apply finish_builder_apply populate_builder_apply
      add_distributions_def resolve_distributions_def select_interpreters_def
      resolve_interpreters_def resolve_local_platforms_step_def read_preamble_def
      OrderedSet_def bnd_apply ret_apply emit_apply deprecated_option_warnings_def
      is_mkdtemp_def seed_cache_apply maybe_install_spec_apply py_or_def path_join_def
      seed_options_def seeding_world_def example_world_def example_pex_def
      example_configuration_def default_options_def truthy_def)

text \<open>
  The claim as stated fails: when \<^verbatim>\<open>maybe_install\<close> returns \<^verbatim>\<open>None\<close> (the artifact
  needs no installation), the path returned for \<^verbatim>\<open>--seed=args\<close> is inside the artifact,
  not under the cache root.
\<close>

theorem seed_cache_output_counterexample:
  "seed_cache example_world seed_options ''/out/app.pex'' example_pex False [] =
     ([], Inr (Path ''/out/app.pex/__main__.py''))
   \<and> pex_info_pex_root example_pex = ''/home/user/.pex''
   \<and> \<not> prefix ''/home/user/.pex'' ''/out/app.pex/__main__.py''"
  by (simp add: seed_cache_apply ret_apply py_or_def path_join_def seed_options_def
      example_world_def example_pex_def default_options_def)

end
